theory Spec2Isabelle
  imports Main "HOL-Library.Word"
begin

section \<open>Machine words, errors and outcomes\<close>

text \<open>
  The kernel targets a 32-bit machine (\<^verbatim>\<open>SYS_FSTAT64\<close>, \<^verbatim>\<open>SYS_FCNTL64\<close>, an
  \<^verbatim>\<open>int32\<close> seconds field, \<^verbatim>\<open>x86_32\<close> in \<^verbatim>\<open>sysUname\<close>): \<^verbatim>\<open>uintptr\<close> is a 32-bit
  word and the conversion \<^verbatim>\<open>int(x)\<close> of a \<^verbatim>\<open>uintptr\<close> reads it as two's complement
  (\<open>sint\<close>). Values of Go's \<^verbatim>\<open>int\<close> are kept as HOL integers; \<^verbatim>\<open>uintptr(n)\<close> is
  \<open>word_of_int n\<close>.
\<close>

type_synonym uintptr = "32 word"
type_synonym byte = "8 word"

text \<open>
  Go \<^verbatim>\<open>error\<close> values: the four \<^verbatim>\<open>syscall.Errno\<close> constants the file names,
  \<^verbatim>\<open>io.EOF\<close>, and opaque errors of the collaborators. \<open>NotExistError\<close> stands for
  any other error that \<^verbatim>\<open>os.IsNotExist\<close> accepts (a path error wrapping it),
  \<open>IOError\<close> for any error it rejects. A nil \<^verbatim>\<open>error\<close> is \<open>None\<close>.
\<close>

datatype error = EBADF | EINVAL | ENOENT | EROFS | EOF | NotExistError nat | IOError nat

fun IsNotExist :: "error \<Rightarrow> bool" where
  "IsNotExist ENOENT = True"
| "IsNotExist (NotExistError k) = True"
| "IsNotExist e = False"

text \<open>
  A Go function either returns, or panics (index out of range, a method call on a nil
  interface), or never returns (the scan of \<^verbatim>\<open>cstring\<close>).
\<close>

datatype panic = IndexOutOfRange | NilDereference

datatype 'a outcome = Return 'a | Panic panic | Diverge

text \<open>Sequencing: the rest of a function body runs only when the call returned.\<close>

fun obind :: "'a outcome \<Rightarrow> ('a \<Rightarrow> 'b outcome) \<Rightarrow> 'b outcome" where
  "obind (Return a) k = k a"
| "obind (Panic p) k = Panic p"
| "obind Diverge k = Diverge"

section \<open>Streams and the collaborators\<close>

text \<open>
  An object of another package (the console, a file of the mounted filesystem) is known
  by its identity only; what its methods do is given by the environment below.
\<close>

datatype obj = Obj nat

text \<open>\<^verbatim>\<open>type fileHelper struct { r io.Reader; w io.Writer; c io.Closer }\<close>\<close>

datatype fileHelper = FH (fh_r: "obj option") (fh_w: "obj option") (fh_c: "obj option")

text \<open>
  The dynamic values of the \<^verbatim>\<open>io.ReadWriteCloser\<close> held by an inode: a
  \<^verbatim>\<open>*fileHelper\<close> or an object of another package (\<open>None\<close> is the nil interface).
\<close>

datatype stream = FileHelper fileHelper | Ext obj

record buffer =
  Data :: uintptr
  Len :: int

record FileInfo =
  Mode :: "32 word"
  ModTime_Unix :: "64 word"
  Size :: "64 word"

text \<open>The three fields of \<^verbatim>\<open>syscall.Stat_t\<close> that the handlers write.\<close>

record Stat_t =
  st_Mode :: "32 word"
  st_Mtim_Sec :: "32 word"
  st_Size :: "64 word"

text \<open>
  The collaborators, as parameters: the mount root (\<^verbatim>\<open>Root.OpenFile\<close>,
  \<^verbatim>\<open>Root.Stat\<close>), the methods of foreign stream objects, the two dynamic type tests
  (\<^verbatim>\<open>x.(afero.File)\<close>, \<^verbatim>\<open>x.(Ioctler)\<close>), the console and \<^verbatim>\<open>etcInit\<close>. Their own
  state is a value of type \<open>'x\<close> that every call may change. A \<^verbatim>\<open>Read\<close> gets the
  buffer it may fill and returns the bytes it stored there, from the buffer's start; a
  \<^verbatim>\<open>Write\<close> gets the buffer's contents.
\<close>

record 'x env =
  Root_OpenFile :: "byte list \<Rightarrow> int \<Rightarrow> 32 word \<Rightarrow> 'x \<Rightarrow> (obj option \<times> error option) \<times> 'x"
  Root_Stat :: "byte list \<Rightarrow> 'x \<Rightarrow> (FileInfo \<times> error option) \<times> 'x"
  is_afero_File :: "obj \<Rightarrow> bool"
  is_Ioctler :: "obj \<Rightarrow> bool"
  obj_Read :: "obj \<Rightarrow> buffer \<Rightarrow> 'x \<Rightarrow> (int \<times> error option \<times> byte list) \<times> 'x"
  obj_Write :: "obj \<Rightarrow> byte list \<Rightarrow> 'x \<Rightarrow> (int \<times> error option) \<times> 'x"
  obj_Close :: "obj \<Rightarrow> 'x \<Rightarrow> error option \<times> 'x"
  obj_Stat :: "obj \<Rightarrow> 'x \<Rightarrow> (FileInfo \<times> error option) \<times> 'x"
  obj_Ioctl :: "obj \<Rightarrow> uintptr \<Rightarrow> uintptr \<Rightarrow> 'x \<Rightarrow> error option \<times> 'x"
  console_Console :: obj
  etcInit :: "'x \<Rightarrow> 'x"

section \<open>The descriptor table\<close>

text \<open>\<^verbatim>\<open>type Inode struct { File io.ReadWriteCloser; Fd int; inuse bool }\<close>\<close>

record Inode =
  File :: "stream option"
  Fd :: int
  inuse :: bool

text \<open>
  \<^verbatim>\<open>var inodes []*Inode\<close>: the table holds pointers. A pointer is an address of
  the store \<open>heap\<close>; \<^verbatim>\<open>new(Inode)\<close> yields the address \<open>brk\<close>, which no earlier
  call has yielded, and advances it. \<open>mem\<close> is the raw
  memory the buffer bridge views, \<open>stat_mem\<close> the \<^verbatim>\<open>Stat_t\<close> seen at an address,
  \<open>rng\<close> the bytes the process-wide generator of \<^verbatim>\<open>math/rand\<close> will produce next,
  \<open>ext\<close> the collaborators' state.
\<close>

record 'x state =
  inodes :: "nat list"
  heap :: "nat \<Rightarrow> Inode"
  brk :: nat
  mem :: "uintptr \<Rightarrow> byte"
  stat_mem :: "uintptr \<Rightarrow> Stat_t"
  rng :: "nat \<Rightarrow> byte"
  ext :: 'x

definition new_Inode :: Inode where
  "new_Inode = \<lparr>File = None, Fd = 0, inuse = False\<rparr>"

text \<open>
  \<^verbatim>\<open>func (i *Inode) Release() { i.inuse = false; i.File = nil; i.Fd = -1 }\<close>
\<close>

definition Release :: "nat \<Rightarrow> 'x state \<Rightarrow> 'x state" where
  "Release i s = s\<lparr>heap := (heap s)(i := (heap s i)\<lparr>inuse := False, File := None, Fd := - 1\<rparr>)\<rparr>"

text \<open>
  The scan of \<^verbatim>\<open>AllocInode\<close>: \<^verbatim>\<open>for i := range inodes\<close>, stopping at the first entry
  that is not in use with \<^verbatim>\<open>fd = i; ni = entry\<close>. The second argument is the part of the
  table still to visit, the third the index of its head.
\<close>

fun scan_free :: "(nat \<Rightarrow> Inode) \<Rightarrow> nat list \<Rightarrow> nat \<Rightarrow> (nat \<times> nat) option" where
  "scan_free h [] i = None"
| "scan_free h (entry # rest) i =
     (if \<not> inuse (h entry) then Some (i, entry) else scan_free h rest (Suc i))"

text \<open>
  \<^verbatim>\<open>AllocInode\<close>: \<^verbatim>\<open>fd\<close> and \<^verbatim>\<open>ni\<close> start as \<^verbatim>\<open>0\<close> and \<^verbatim>\<open>nil\<close>, and the test after
  the loop is \<^verbatim>\<open>fd == 0\<close>: it holds when the scan found nothing and also when the
  slot it found is slot 0; then a new inode is appended. Otherwise \<^verbatim>\<open>ni\<close> is the
  entry found. The result is the handle, the pointer and the new state.
\<close>

definition AllocInode :: "'x state \<Rightarrow> int \<times> nat \<times> 'x state" where
  "AllocInode s =
     (let (fd, ni, s) =
            (case scan_free (heap s) (inodes s) 0 of
               Some (Suc i, entry) \<Rightarrow> (int (Suc i), entry, s)
             | _ \<Rightarrow> (int (length (inodes s)), brk s,
                     s\<lparr>inodes := inodes s @ [brk s], heap := (heap s)(brk s := new_Inode),
                       brk := Suc (brk s)\<rparr>))
      in (fd, ni, s\<lparr>heap := (heap s)(ni := (heap s ni)\<lparr>inuse := True, Fd := fd\<rparr>)\<rparr>))"

definition AllocFileNode :: "stream option \<Rightarrow> 'x state \<Rightarrow> int \<times> nat \<times> 'x state" where
  "AllocFileNode r s =
     (let (fd, ni, s) = AllocInode s
      in (fd, ni, s\<lparr>heap := (heap s)(ni := (heap s ni)\<lparr>File := r\<rparr>)\<rparr>))"

text \<open>
  \<^verbatim>\<open>GetInode\<close>: the only bound tested is the upper one; \<^verbatim>\<open>inodes[fd]\<close> with a negative
  \<^verbatim>\<open>fd\<close> panics.
\<close>

definition GetInode :: "int \<Rightarrow> 'x state \<Rightarrow> (error + nat) outcome" where
  "GetInode fd s =
     (if fd \<ge> int (length (inodes s)) then Return (Inl EBADF)
      else if fd < 0 then Panic IndexOutOfRange
      else let ni = inodes s ! nat fd
           in if \<not> inuse (heap s ni) then Return (Inl EBADF) else Return (Inr ni))"

section \<open>The buffer bridge and raw memory\<close>

text \<open>
  Modelled from the spec: \<^verbatim>\<open>sys.UnsafeBuffer\<close> is not among the sources. The spec's
  contract is a view of exactly \<open>length\<close> bytes starting at \<open>address\<close>, with no copy
  and no validation: here the slice header itself.
\<close>

definition UnsafeBuffer :: "uintptr \<Rightarrow> int \<Rightarrow> buffer" where
  "UnsafeBuffer p n = \<lparr>Data = p, Len = n\<rparr>"

definition load_bytes :: "(uintptr \<Rightarrow> byte) \<Rightarrow> buffer \<Rightarrow> byte list" where
  "load_bytes m b = map (\<lambda>i. m (Data b + of_nat i)) [0..<nat (Len b)]"

fun store_bytes :: "(uintptr \<Rightarrow> byte) \<Rightarrow> uintptr \<Rightarrow> byte list \<Rightarrow> (uintptr \<Rightarrow> byte)" where
  "store_bytes m p [] = m"
| "store_bytes m p (b # bs) = store_bytes (m(p := b)) (p + 1) bs"

text \<open>What a callee that stored \<open>bs\<close> from the start of the buffer left in memory.\<close>

definition fill_buffer :: "(uintptr \<Rightarrow> byte) \<Rightarrow> buffer \<Rightarrow> byte list \<Rightarrow> (uintptr \<Rightarrow> byte)" where
  "fill_buffer m b bs = store_bytes m (Data b) (take (nat (Len b)) bs)"

text \<open>
  The loop of \<^verbatim>\<open>cstring\<close>:
  \<^verbatim>\<open>for p := ptr; *(*byte)(unsafe.Pointer(p)) != 0; p++ { n++ }\<close>.
  It ends at the first zero byte and does not return when there is none.
\<close>

partial_function (option) cstring_scan :: "(uintptr \<Rightarrow> byte) \<Rightarrow> uintptr \<Rightarrow> int \<Rightarrow> int option" where
  "cstring_scan m p n = (if m p \<noteq> 0 then cstring_scan m (p + 1) (n + 1) else Some n)"

definition cstring :: "(uintptr \<Rightarrow> byte) \<Rightarrow> uintptr \<Rightarrow> byte list option" where
  "cstring m ptr =
     (case cstring_scan m ptr 0 of
        None \<Rightarrow> None
      | Some n \<Rightarrow> Some (load_bytes m (UnsafeBuffer ptr n)))"

section \<open>The stream wrapper\<close>

text \<open>\<^verbatim>\<open>func NewFile(r io.Reader, w io.Writer, c io.Closer) io.ReadWriteCloser\<close>\<close>

definition NewFile :: "obj option \<Rightarrow> obj option \<Rightarrow> obj option \<Rightarrow> stream option" where
  "NewFile r w c = Some (FileHelper (FH r w c))"

definition fileHelper_Read ::
  "'x env \<Rightarrow> fileHelper \<Rightarrow> buffer \<Rightarrow> 'x \<Rightarrow> (int \<times> error option \<times> byte list) \<times> 'x" where
  "fileHelper_Read E r p x =
     (case fh_r r of
        Some rd \<Rightarrow> obj_Read E rd p x
      | None \<Rightarrow> ((0, Some EINVAL, []), x))"

definition fileHelper_Write ::
  "'x env \<Rightarrow> fileHelper \<Rightarrow> byte list \<Rightarrow> 'x \<Rightarrow> (int \<times> error option) \<times> 'x" where
  "fileHelper_Write E r p x =
     (case fh_w r of
        Some wr \<Rightarrow> obj_Write E wr p x
      | None \<Rightarrow> ((0, Some EROFS), x))"

text \<open>
  \<^verbatim>\<open>fileHelper.Ioctl\<close>: \<^verbatim>\<open>x\<close> is the read half when it is wired and the write half
  otherwise; \<^verbatim>\<open>x.(Ioctler)\<close> fails on a nil \<^verbatim>\<open>x\<close> and on an object without the method.
\<close>

definition fileHelper_Ioctl ::
  "'x env \<Rightarrow> fileHelper \<Rightarrow> uintptr \<Rightarrow> uintptr \<Rightarrow> 'x \<Rightarrow> error option \<times> 'x" where
  "fileHelper_Ioctl E r op arg x =
     (let half = (if fh_r r \<noteq> None then fh_r r else fh_w r)
      in case half of
           None \<Rightarrow> (Some EBADF, x)
         | Some ctl \<Rightarrow> if \<not> is_Ioctler E ctl then (Some EBADF, x) else obj_Ioctl E ctl op arg x)"

definition fileHelper_Close :: "'x env \<Rightarrow> fileHelper \<Rightarrow> 'x \<Rightarrow> error option \<times> 'x" where
  "fileHelper_Close E r x =
     (case fh_c r of
        Some cl \<Rightarrow> obj_Close E cl x
      | None \<Rightarrow> (Some EINVAL, x))"

text \<open>Method calls through the \<^verbatim>\<open>io.ReadWriteCloser\<close> interface, by dynamic type.\<close>

fun File_Read ::
  "'x env \<Rightarrow> stream \<Rightarrow> buffer \<Rightarrow> 'x \<Rightarrow> (int \<times> error option \<times> byte list) \<times> 'x" where
  "File_Read E (FileHelper r) p x = fileHelper_Read E r p x"
| "File_Read E (Ext f) p x = obj_Read E f p x"

fun File_Write :: "'x env \<Rightarrow> stream \<Rightarrow> byte list \<Rightarrow> 'x \<Rightarrow> (int \<times> error option) \<times> 'x" where
  "File_Write E (FileHelper r) p x = fileHelper_Write E r p x"
| "File_Write E (Ext f) p x = obj_Write E f p x"

fun File_Close :: "'x env \<Rightarrow> stream \<Rightarrow> 'x \<Rightarrow> error option \<times> 'x" where
  "File_Close E (FileHelper r) x = fileHelper_Close E r x"
| "File_Close E (Ext f) x = obj_Close E f x"

text \<open>
  The type assertions \<^verbatim>\<open>ni.File.(afero.File)\<close> and \<^verbatim>\<open>ni.File.(Ioctler)\<close>. A
  \<^verbatim>\<open>*fileHelper\<close> has the methods \<^verbatim>\<open>Read\<close>, \<^verbatim>\<open>Write\<close>, \<^verbatim>\<open>Ioctl\<close> and \<^verbatim>\<open>Close\<close>
  only: it is an \<^verbatim>\<open>Ioctler\<close> and is not an \<^verbatim>\<open>afero.File\<close>. A nil interface fails both.
\<close>

fun as_afero_File :: "'x env \<Rightarrow> stream option \<Rightarrow> obj option" where
  "as_afero_File E None = None"
| "as_afero_File E (Some (FileHelper r)) = None"
| "as_afero_File E (Some (Ext f)) = (if is_afero_File E f then Some f else None)"

fun as_Ioctler :: "'x env \<Rightarrow> stream option \<Rightarrow> stream option" where
  "as_Ioctler E None = None"
| "as_Ioctler E (Some (FileHelper r)) = Some (FileHelper r)"
| "as_Ioctler E (Some (Ext f)) = (if is_Ioctler E f then Some (Ext f) else None)"

fun File_Ioctl :: "'x env \<Rightarrow> stream \<Rightarrow> uintptr \<Rightarrow> uintptr \<Rightarrow> 'x \<Rightarrow> error option \<times> 'x" where
  "File_Ioctl E (FileHelper r) op arg x = fileHelper_Ioctl E r op arg x"
| "File_Ioctl E (Ext f) op arg x = obj_Ioctl E f op arg x"

section \<open>The handlers\<close>

text \<open>
  \<^verbatim>\<open>sysOpen\<close>: the inode is allocated before \<^verbatim>\<open>Root.OpenFile\<close> is called, and the two
  error returns leave it as \<^verbatim>\<open>AllocInode\<close> made it.
\<close>

definition sysOpen ::
  "'x env \<Rightarrow> uintptr \<Rightarrow> uintptr \<Rightarrow> uintptr \<Rightarrow> uintptr \<Rightarrow> 'x state \<Rightarrow>
     ((int \<times> error option) \<times> 'x state) outcome" where
  "sysOpen E dirfd name flags perm s =
     (case cstring (mem s) name of
        None \<Rightarrow> Diverge
      | Some path \<Rightarrow>
          (let (fd, ni, s) = AllocInode s;
               ((f, err), x) = Root_OpenFile E path (sint flags) perm (ext s);
               s = s\<lparr>ext := x\<rparr>
           in case err of
                Some e \<Rightarrow>
                  if IsNotExist e then Return ((0, Some ENOENT), s)
                  else Return ((0, Some e), s)
              | None \<Rightarrow>
                  Return ((fd, None),
                    s\<lparr>heap := (heap s)(ni := (heap s ni)\<lparr>File := map_option Ext f\<rparr>)\<rparr>)))"

definition sysClose :: "'x env \<Rightarrow> nat \<Rightarrow> 'x state \<Rightarrow> (error option \<times> 'x state) outcome" where
  "sysClose E ni s =
     (case File (heap s ni) of
        None \<Rightarrow> Panic NilDereference
      | Some f \<Rightarrow>
          (let (err, x) = File_Close E f (ext s)
           in Return (err, Release ni (s\<lparr>ext := x\<rparr>))))"

definition sysRead ::
  "'x env \<Rightarrow> nat \<Rightarrow> uintptr \<Rightarrow> uintptr \<Rightarrow> 'x state \<Rightarrow> ((int \<times> error option) \<times> 'x state) outcome" where
  "sysRead E ni p n s =
     (let buf = UnsafeBuffer p (sint n)
      in case File (heap s ni) of
           None \<Rightarrow> Panic NilDereference
         | Some f \<Rightarrow>
             (let ((ret, err, stored), x) = File_Read E f buf (ext s);
                  s = s\<lparr>mem := fill_buffer (mem s) buf stored, ext := x\<rparr>
              in if ret \<noteq> 0 then Return ((ret, None), s)
                 else if err = Some EOF then Return ((0, None), s)
                 else if err \<noteq> None then Return ((0, err), s)
                 else Return ((ret, err), s)))"

definition sysWrite ::
  "'x env \<Rightarrow> nat \<Rightarrow> uintptr \<Rightarrow> uintptr \<Rightarrow> 'x state \<Rightarrow> ((int \<times> error option) \<times> 'x state) outcome" where
  "sysWrite E ni p n s =
     (let buf = UnsafeBuffer p (sint n)
      in case File (heap s ni) of
           None \<Rightarrow> Panic NilDereference
         | Some f \<Rightarrow>
             (let ((n', err), x) = File_Write E f (load_bytes (mem s) buf) (ext s);
                  s = s\<lparr>ext := x\<rparr>
              in if n' \<noteq> 0 then Return ((n', None), s) else Return ((0, err), s)))"

text \<open>
  \<^verbatim>\<open>int32(info.ModTime().Unix())\<close> keeps the low 32 bits of the 64-bit seconds.
\<close>

definition write_Stat :: "FileInfo \<Rightarrow> Stat_t \<Rightarrow> Stat_t" where
  "write_Stat info st = st\<lparr>st_Mode := Mode info, st_Mtim_Sec := ucast (ModTime_Unix info), st_Size := Size info\<rparr>"

definition sysStat :: "'x env \<Rightarrow> nat \<Rightarrow> uintptr \<Rightarrow> 'x state \<Rightarrow> error option \<times> 'x state" where
  "sysStat E ni statptr s =
     (case as_afero_File E (File (heap s ni)) of
        None \<Rightarrow> (Some EINVAL, s)
      | Some file \<Rightarrow>
          (let ((info, err), x) = obj_Stat E file (ext s);
               s = s\<lparr>ext := x\<rparr>
           in case err of
                Some e \<Rightarrow> (Some e, s)
              | None \<Rightarrow>
                  (None, s\<lparr>stat_mem := (stat_mem s)(statptr := write_Stat info (stat_mem s statptr))\<rparr>)))"

definition sysIoctl :: "'x env \<Rightarrow> nat \<Rightarrow> uintptr \<Rightarrow> uintptr \<Rightarrow> 'x state \<Rightarrow> error option \<times> 'x state" where
  "sysIoctl E ni op arg s =
     (case as_Ioctler E (File (heap s ni)) of
        None \<Rightarrow> (Some EINVAL, s)
      | Some ctl \<Rightarrow>
          (let (err, x) = File_Ioctl E ctl op arg (ext s)
           in (err, s\<lparr>ext := x\<rparr>)))"

section \<open>Requests and the dispatcher\<close>

text \<open>
  Modelled from the spec: \<^verbatim>\<open>isyscall.Request\<close>, \<^verbatim>\<open>isyscall.Error\<close>,
  \<^verbatim>\<open>isyscall.Errno\<close> and \<^verbatim>\<open>Request.Done\<close> are not among the sources. The spec's
  request has argument words, a result that is a machine word or an encoded error, and
  a completion signal. \<open>trace\<close> records, in order, every assignment to \<^verbatim>\<open>Ret\<close> and
  every call of \<^verbatim>\<open>Done\<close> on the request.
\<close>

datatype ret = RetWord uintptr | RetError error

datatype event = Assign ret | Complete

record Request =
  Args :: "nat \<Rightarrow> uintptr"
  Ret :: ret
  trace :: "event list"

definition isyscall_Error :: "error \<Rightarrow> ret" where
  "isyscall_Error err = RetError err"

definition isyscall_Errno :: "error \<Rightarrow> ret" where
  "isyscall_Errno code = RetError code"

definition set_Ret :: "ret \<Rightarrow> Request \<Rightarrow> Request" where
  "set_Ret v c = c\<lparr>Ret := v, trace := trace c @ [Assign v]\<rparr>"

definition Done :: "Request \<Rightarrow> Request" where
  "Done c = c\<lparr>trace := trace c @ [Complete]\<rparr>"

text \<open>The opcodes of \<^verbatim>\<open>syscall\<close> on linux/386.\<close>

definition SYS_READ :: int where "SYS_READ = 3"
definition SYS_WRITE :: int where "SYS_WRITE = 4"
definition SYS_CLOSE :: int where "SYS_CLOSE = 6"
definition SYS_IOCTL :: int where "SYS_IOCTL = 54"
definition SYS_FSTAT64 :: int where "SYS_FSTAT64 = 197"
definition SYS_OPENAT :: int where "SYS_OPENAT = 295"

text \<open>
  The \<^verbatim>\<open>switch fn\<close> of \<^verbatim>\<open>fscall\<close>: it yields the request (with \<^verbatim>\<open>Ret\<close> assigned
  by the read and write cases), the handler's \<^verbatim>\<open>err\<close> and the state. An opcode
  without a case does nothing.
\<close>

definition fscall_switch ::
  "'x env \<Rightarrow> int \<Rightarrow> nat \<Rightarrow> Request \<Rightarrow> 'x state \<Rightarrow> (Request \<times> error option \<times> 'x state) outcome" where
  "fscall_switch E fn ni c s =
     (if fn = SYS_READ then
        obind (sysRead E ni (Args c 1) (Args c 2) s)
          (\<lambda>((n, err), s). Return (set_Ret (RetWord (word_of_int n)) c, err, s))
      else if fn = SYS_WRITE then
        obind (sysWrite E ni (Args c 1) (Args c 2) s)
          (\<lambda>((n, err), s). Return (set_Ret (RetWord (word_of_int n)) c, err, s))
      else if fn = SYS_CLOSE then
        obind (sysClose E ni s) (\<lambda>(err, s). Return (c, err, s))
      else if fn = SYS_FSTAT64 then
        (let (err, s) = sysStat E ni (Args c 1) s in Return (c, err, s))
      else if fn = SYS_IOCTL then
        (let (err, s) = sysIoctl E ni (Args c 1) (Args c 2) s in Return (c, err, s))
      else Return (c, None, s))"

definition fscall :: "'x env \<Rightarrow> int \<Rightarrow> Request \<Rightarrow> 'x state \<Rightarrow> (Request \<times> 'x state) outcome" where
  "fscall E fn c s =
     (if fn = SYS_OPENAT then
        obind (sysOpen E (Args c 0) (Args c 1) (Args c 2) (Args c 3) s)
          (\<lambda>((fd, err), s).
             Return (Done (case err of
                             Some e \<Rightarrow> set_Ret (isyscall_Error e) c
                           | None \<Rightarrow> set_Ret (RetWord (word_of_int fd)) c), s))
      else
        obind (GetInode (sint (Args c 0)) s)
          (\<lambda>r. case r of
                  Inl e \<Rightarrow> Return (Done (set_Ret (isyscall_Error e) c), s)
                | Inr ni \<Rightarrow>
                    obind (fscall_switch E fn ni c s)
                      (\<lambda>(c, err, s).
                         Return (Done (case err of
                                         Some e \<Rightarrow> set_Ret (isyscall_Error e) c
                                       | None \<Rightarrow> c), s))))"

definition sysFcntl :: "Request \<Rightarrow> Request" where
  "sysFcntl call = Done (set_Ret (RetWord 0) call)"

definition sysFstatat64 :: "'x env \<Rightarrow> Request \<Rightarrow> 'x state \<Rightarrow> (Request \<times> 'x state) outcome" where
  "sysFstatat64 E c s =
     (case cstring (mem s) (Args c 1) of
        None \<Rightarrow> Diverge
      | Some name \<Rightarrow>
          (let ((info, err), x) = Root_Stat E name (ext s);
               s = s\<lparr>ext := x\<rparr>
           in case err of
                Some e \<Rightarrow>
                  Return (Done (if IsNotExist e then set_Ret (isyscall_Errno ENOENT) c
                                else set_Ret (isyscall_Error e) c), s)
              | None \<Rightarrow>
                  Return (Done (set_Ret (RetWord 0) c),
                    s\<lparr>stat_mem := (stat_mem s)(Args c 2 := write_Stat info (stat_mem s (Args c 2)))\<rparr>)))"



section \<open>Boot\<close>

text \<open>
  \<^verbatim>\<open>vfsInit\<close>: descriptors 0 to 3 (stdin, stdout, stderr, the epoll placeholder),
  then \<^verbatim>\<open>etcInit\<close>.
\<close>

definition vfsInit :: "'x env \<Rightarrow> 'x state \<Rightarrow> 'x state" where
  "vfsInit E s =
     (let c = console_Console E;
          (fd, ni, s) = AllocFileNode (NewFile (Some c) None None) s;
          (fd, ni, s) = AllocFileNode (NewFile None (Some c) None) s;
          (fd, ni, s) = AllocFileNode (NewFile None (Some c) None) s;
          (fd, ni, s) = AllocFileNode (NewFile None None None) s
      in s\<lparr>ext := etcInit E (ext s)\<rparr>)"

text \<open>The state before \<^verbatim>\<open>Init\<close>: \<^verbatim>\<open>inodes\<close> is the nil slice.\<close>

definition empty_table ::
  "(uintptr \<Rightarrow> byte) \<Rightarrow> (uintptr \<Rightarrow> Stat_t) \<Rightarrow> (nat \<Rightarrow> byte) \<Rightarrow> 'x \<Rightarrow> 'x state" where
  "empty_table m st g x =
     \<lparr>inodes = [], heap = (\<lambda>a. new_Inode), brk = 0, mem = m, stat_mem = st, rng = g, ext = x\<rparr>"

section \<open>Notions used in the statements\<close>

text \<open>Allocating one descriptor per stream of a list, in order.\<close>

fun alloc_all :: "stream option list \<Rightarrow> 'x state \<Rightarrow> 'x state" where
  "alloc_all [] s = s"
| "alloc_all (r # rs) s = alloc_all rs (snd (snd (AllocFileNode r s)))"

text \<open>
  The table's pointers are pairwise different and were all yielded by \<^verbatim>\<open>new(Inode)\<close>;
  every entry of the table is in use.
\<close>

definition table_ok :: "'x state \<Rightarrow> bool" where
  "table_ok s = (distinct (inodes s) \<and> list_all (\<lambda>a. a < brk s) (inodes s))"

definition all_inuse :: "'x state \<Rightarrow> bool" where
  "all_inuse s = list_all (\<lambda>a. inuse (heap s a)) (inodes s)"

text \<open>What the trapped caller is handed back: the request's result, when the handler returned.\<close>

fun syscall_result :: "(Request \<times> 'x state) outcome \<Rightarrow> ret option" where
  "syscall_result (Return (c, s)) = Some (Ret c)"
| "syscall_result (Panic p) = None"
| "syscall_result Diverge = None"

text \<open>
  Between the request \<open>c\<close> handed to a handler and the request \<open>c'\<close> it left, the
  completion signal was fired exactly once, and nothing was done to the request after it.
\<close>

definition completed_once_last :: "Request \<Rightarrow> Request \<Rightarrow> bool" where
  "completed_once_last c c' =
     (let new = drop (length (trace c)) (trace c')
      in take (length (trace c)) (trace c') = trace c \<and>
         new \<noteq> [] \<and> last new = Complete \<and> count_list new Complete = 1)"

text \<open>A handler returned, and on the request it left the signal was fired once and last.\<close>

fun completes :: "Request \<Rightarrow> (Request \<times> 'x state) outcome \<Rightarrow> bool" where
  "completes c (Return (c', s)) = completed_once_last c c'"
| "completes c (Panic p) = False"
| "completes c Diverge = False"

text \<open>
  The selected half of a wrapper has an \<^verbatim>\<open>Ioctl\<close> method: the second capability test,
  made by \<^verbatim>\<open>fileHelper.Ioctl\<close> itself.
\<close>

definition half_is_Ioctler :: "'x env \<Rightarrow> fileHelper \<Rightarrow> bool" where
  "half_is_Ioctler E r =
     (case (if fh_r r \<noteq> None then fh_r r else fh_w r) of
        None \<Rightarrow> False
      | Some ctl \<Rightarrow> is_Ioctler E ctl)"

section \<open>A concrete machine for the examples\<close>

text \<open>
  The console is object 0: it is at end of input, takes every write whole and has an
  \<^verbatim>\<open>Ioctl\<close>. The mount root holds the single file \<^verbatim>\<open>/etc\<close>, object 1, whose reads
  and writes transfer bytes and report an error at once. Memory holds the string
  \<^verbatim>\<open>/missing\<close> at address 4096 and \<^verbatim>\<open>/etc\<close> at address 8192.
\<close>

definition sample_info :: FileInfo where
  "sample_info = \<lparr>Mode = 420, ModTime_Unix = 1, Size = 2\<rparr>"

definition sample_env :: "unit env" where
  "sample_env =
     \<lparr>Root_OpenFile = (\<lambda>path flags perm x.
          if path = [47, 101, 116, 99] then ((Some (Obj 1), None), x)
          else ((None, Some (NotExistError 0)), x)),
      Root_Stat = (\<lambda>path x.
          if path = [47, 101, 116, 99] then ((sample_info, None), x)
          else ((sample_info, Some (NotExistError 0)), x)),
      is_afero_File = (\<lambda>f. f = Obj 1),
      is_Ioctler = (\<lambda>f. f = Obj 0),
      obj_Read = (\<lambda>f buf x.
          if f = Obj 0 then ((0, Some EOF, []), x) else ((2, Some (IOError 5), [104, 105]), x)),
      obj_Write = (\<lambda>f bs x.
          if f = Obj 0 then ((int (length bs), None), x) else ((3, Some (IOError 6)), x)),
      obj_Close = (\<lambda>f x. (Some (IOError 7), x)),
      obj_Stat = (\<lambda>f x. ((sample_info, None), x)),
      obj_Ioctl = (\<lambda>f op arg x. (None, x)),
      console_Console = Obj 0,
      etcInit = (\<lambda>x. x)\<rparr>"

definition sample_mem :: "uintptr \<Rightarrow> byte" where
  "sample_mem =
     store_bytes (store_bytes (\<lambda>a. 0) 4096 [47, 109, 105, 115, 115, 105, 110, 103])
       8192 [47, 101, 116, 99]"

definition zero_Stat :: Stat_t where
  "zero_Stat = \<lparr>st_Mode = 0, st_Mtim_Sec = 0, st_Size = 0\<rparr>"

definition sample_boot :: "unit state" where
  "sample_boot = vfsInit sample_env (empty_table sample_mem (\<lambda>a. zero_Stat) (\<lambda>i. of_nat i) ())"

text \<open>The machine after boot and a successful \<^verbatim>\<open>sysOpen\<close> of \<^verbatim>\<open>/etc\<close>.\<close>

definition sample_opened :: "unit state" where
  "sample_opened =
     (case sysOpen sample_env 0 8192 0 0 sample_boot of
        Return (r, s) \<Rightarrow> s
      | Panic p \<Rightarrow> sample_boot
      | Diverge \<Rightarrow> sample_boot)"

text \<open>The machine after boot and a failed \<^verbatim>\<open>sysOpen\<close> of \<^verbatim>\<open>/missing\<close>.\<close>

definition sample_leaked :: "unit state" where
  "sample_leaked =
     (case sysOpen sample_env 0 4096 0 0 sample_boot of
        Return (r, s) \<Rightarrow> s
      | Panic p \<Rightarrow> sample_boot
      | Diverge \<Rightarrow> sample_boot)"

text \<open>A request with the given four argument words, before any handler touched it.\<close>

definition request :: "uintptr \<Rightarrow> uintptr \<Rightarrow> uintptr \<Rightarrow> uintptr \<Rightarrow> Request" where
  "request a0 a1 a2 a3 =
     \<lparr>Args = (\<lambda>i. if i = 0 then a0 else if i = 1 then a1 else if i = 2 then a2
                   else if i = 3 then a3 else 0),
      Ret = RetWord 0, trace = []\<rparr>"

section \<open>The allocation policy\<close>

lemma scan_free_None: "list_all (\<lambda>a. inuse (h a)) tbl \<Longrightarrow> scan_free h tbl i = None"
  by (induction tbl arbitrary: i) auto

lemma scan_free_first:
  "list_all (\<lambda>a. inuse (h a)) pre \<Longrightarrow> \<not> inuse (h a) \<Longrightarrow>
   scan_free h (pre @ a # post) i = Some (i + length pre, a)"
  by (induction pre arbitrary: i) auto

lemma AllocInode_full:
  "all_inuse s \<Longrightarrow>
   AllocInode s =
     (int (length (inodes s)), brk s,
      s\<lparr>inodes := inodes s @ [brk s],
        heap := (heap s)(brk s := \<lparr>File = None, Fd = int (length (inodes s)), inuse = True\<rparr>),
        brk := Suc (brk s)\<rparr>)"
  by (simp add: AllocInode_def all_inuse_def scan_free_None new_Inode_def)

lemma AllocFileNode_full:
  "all_inuse s \<Longrightarrow>
   AllocFileNode r s =
     (int (length (inodes s)), brk s,
      s\<lparr>inodes := inodes s @ [brk s],
        heap := (heap s)(brk s := \<lparr>File = r, Fd = int (length (inodes s)), inuse = True\<rparr>),
        brk := Suc (brk s)\<rparr>)"
  by (simp add: AllocFileNode_def AllocInode_full)

lemma AllocFileNode_keeps:
  assumes "table_ok s" "all_inuse s"
  shows "table_ok (snd (snd (AllocFileNode r s)))"
    and "all_inuse (snd (snd (AllocFileNode r s)))"
    and "length (inodes (snd (snd (AllocFileNode r s)))) = Suc (length (inodes s))"
  using assms
  by (auto simp: AllocFileNode_full table_ok_def all_inuse_def list_all_iff)

lemma alloc_all_keeps:
  "table_ok s \<Longrightarrow> all_inuse s \<Longrightarrow>
   table_ok (alloc_all rs s) \<and> all_inuse (alloc_all rs s) \<and>
   length (inodes (alloc_all rs s)) = length (inodes s) + length rs"
proof (induction rs arbitrary: s)
  case Nil
  then show ?case by simp
next
  case (Cons r rs)
  from Cons.IH [OF AllocFileNode_keeps(1,2) [OF Cons.prems, of r]]
  show ?case by (simp add: AllocFileNode_keeps(3) [OF Cons.prems])
qed

lemma scan_after_Release:
  assumes ok: "table_ok s" and full: "all_inuse s" and k: "k < length (inodes s)"
  shows "scan_free (heap (Release (inodes s ! k) s)) (inodes (Release (inodes s ! k) s)) 0
         = Some (k, inodes s ! k)"
proof -
  let ?a = "inodes s ! k"
  let ?h = "heap (Release ?a s)"
  have split: "inodes s = take k (inodes s) @ ?a # drop (Suc k) (inodes s)"
    using k by (simp add: id_take_nth_drop)
  have free: "\<not> inuse (?h ?a)"
    by (simp add: Release_def)
  have "distinct (take k (inodes s) @ ?a # drop (Suc k) (inodes s))"
    using ok split by (simp add: table_ok_def)
  then have notin: "?a \<notin> set (take k (inodes s))"
    by simp
  have pre: "list_all (\<lambda>b. inuse (?h b)) (take k (inodes s))"
    unfolding list_all_iff
  proof
    fix b assume b: "b \<in> set (take k (inodes s))"
    then have "b \<in> set (inodes s)" by (rule in_set_takeD)
    moreover have "b \<noteq> ?a" using b notin by auto
    ultimately show "inuse (?h b)"
      using full by (simp add: Release_def all_inuse_def list_all_iff)
  qed
  have "scan_free ?h (take k (inodes s) @ ?a # drop (Suc k) (inodes s)) 0
        = Some (0 + length (take k (inodes s)), ?a)"
    by (rule scan_free_first [OF pre free])
  moreover have "inodes (Release ?a s) = inodes s" by (simp add: Release_def)
  ultimately show ?thesis using split k by simp
qed

lemma table_ok_empty: "table_ok (empty_table m st g x)" "all_inuse (empty_table m st g x)"
  by (simp_all add: table_ok_def all_inuse_def empty_table_def)

text \<open>
  C2. Allocate one descriptor per element of \<open>rs\<close> from the empty table, release the
  entry at index \<open>k\<close>, and allocate once more. For \<open>k > 0\<close> the handle returned is
  \<open>k\<close>, the entry is the released one and the table keeps its length. For \<open>k = 0\<close>
  the handle is the table's length before the call, the entry is a new one appended to
  the table, and slot 0 stays not in use.
\<close>

theorem AllocInode_after_release:
  assumes k: "k < length rs"
  shows "let s0 = alloc_all rs (empty_table m st g x);
             s = Release (inodes s0 ! k) s0;
             (fd, ni, s') = AllocInode s
         in length (inodes s) = length rs \<and> Fd (heap s' ni) = fd \<and> inuse (heap s' ni) \<and>
            (if 0 < k
             then fd = int k \<and> ni = inodes s ! k \<and> inodes s' = inodes s
             else fd = int (length (inodes s)) \<and> inodes s' = inodes s @ [ni] \<and>
                  ni \<notin> set (inodes s) \<and> \<not> inuse (heap s' (inodes s' ! 0)))"
proof -
  define s0 where "s0 = alloc_all rs (empty_table m st g x)"
  define a where "a = inodes s0 ! k"
  define s where "s = Release a s0"
  have inv: "table_ok s0" "all_inuse s0" "length (inodes s0) = length rs"
    using alloc_all_keeps [OF table_ok_empty, of rs m st g x]
    by (simp_all add: s0_def empty_table_def)
  have k0: "k < length (inodes s0)" using k inv(3) by simp
  have scan: "scan_free (heap s) (inodes s) 0 = Some (k, a)"
    unfolding s_def a_def by (rule scan_after_Release [OF inv(1,2) k0])
  have tbl: "inodes s = inodes s0" and len: "brk s = brk s0"
    by (simp_all add: s_def Release_def)
  have valid: "\<forall>b\<in>set (inodes s). b < brk s"
    using inv(1) by (simp add: table_ok_def tbl len list_all_iff)
  have a_in: "a \<in> set (inodes s)" using k0 by (simp add: a_def tbl)
  then have a_lt: "a < brk s" using valid by blast
  have a_free: "\<not> inuse (heap s a)"
    by (simp add: s_def Release_def)
  have ?thesis if "0 < k"
  proof -
    from that obtain j where j: "k = Suc j" by (cases k) auto
    have A: "AllocInode s =
        (int k, a, s\<lparr>heap := (heap s)(a := (heap s a)\<lparr>inuse := True, Fd := int k\<rparr>)\<rparr>)"
      by (simp add: AllocInode_def scan j)
    have "a = inodes s ! k" by (simp add: a_def tbl)
    then show ?thesis
      unfolding Let_def s0_def [symmetric] a_def [symmetric] s_def [symmetric] A
      using that inv(3) by (simp add: tbl)
  qed
  moreover have ?thesis if "k = 0"
  proof -
    have A: "AllocInode s =
        (int (length (inodes s)), brk s,
         s\<lparr>inodes := inodes s @ [brk s],
           heap := (heap s)(brk s := \<lparr>File = None, Fd = int (length (inodes s)), inuse = True\<rparr>),
           brk := Suc (brk s)\<rparr>)"
      by (simp add: AllocInode_def scan that new_Inode_def)
    have fresh: "brk s \<notin> set (inodes s)" using valid by auto
    have "inodes s \<noteq> []" using k0 tbl by auto
    then have "(inodes s @ [brk s]) ! 0 = a"
      using that by (simp add: a_def tbl nth_append)
    then show ?thesis
      unfolding Let_def s0_def [symmetric] a_def [symmetric] s_def [symmetric] A
      using that a_lt a_free inv(3) fresh
      by (simp add: tbl)
  qed
  ultimately show ?thesis by blast
qed

text \<open>Three descriptors: releasing index 1 gives 1 again, releasing index 0 gives 3.\<close>

theorem AllocInode_after_release_witness:
  "(1::nat) < length [None, None, None :: stream option] \<and>
   fst (AllocInode (Release (inodes (alloc_all [None, None, None] (empty_table sample_mem (\<lambda>a. zero_Stat) (\<lambda>i. 0) ())) ! 1)
      (alloc_all [None, None, None] (empty_table sample_mem (\<lambda>a. zero_Stat) (\<lambda>i. 0) ())))) = 1 \<and>
   (0::nat) < length [None, None, None :: stream option] \<and>
   fst (AllocInode (Release (inodes (alloc_all [None, None, None] (empty_table sample_mem (\<lambda>a. zero_Stat) (\<lambda>i. 0) ())) ! 0)
      (alloc_all [None, None, None] (empty_table sample_mem (\<lambda>a. zero_Stat) (\<lambda>i. 0) ())))) = 3"
  using AllocInode_after_release [of 1 "[None, None, None]" sample_mem "\<lambda>a. zero_Stat" "\<lambda>i. 0" "()"]
        AllocInode_after_release [of 0 "[None, None, None]" sample_mem "\<lambda>a. zero_Stat" "\<lambda>i. 0" "()"]
  by (simp add: Let_def split_beta)


section \<open>Lookup, the dispatcher and the example machine\<close>

lemma GetInode_Inr:
  "GetInode fd s = Return (Inr ni) \<longleftrightarrow>
   0 \<le> fd \<and> fd < int (length (inodes s)) \<and> ni = inodes s ! nat fd \<and> inuse (heap s ni)"
  by (auto simp: GetInode_def Let_def)

lemma fscall_resolved:
  "fn \<noteq> SYS_OPENAT \<Longrightarrow> GetInode (sint (Args c 0)) s = Return (Inr ni) \<Longrightarrow>
   fscall E fn c s =
     obind (fscall_switch E fn ni c s)
       (\<lambda>(c, err, s). Return (Done (case err of Some e \<Rightarrow> set_Ret (isyscall_Error e) c | None \<Rightarrow> c), s))"
  by (simp add: fscall_def)

lemma opcodes_distinct:
  "SYS_READ \<noteq> SYS_OPENAT" "SYS_WRITE \<noteq> SYS_OPENAT" "SYS_CLOSE \<noteq> SYS_OPENAT"
  "SYS_FSTAT64 \<noteq> SYS_OPENAT" "SYS_IOCTL \<noteq> SYS_OPENAT"
  "SYS_WRITE \<noteq> SYS_READ" "SYS_CLOSE \<noteq> SYS_READ" "SYS_CLOSE \<noteq> SYS_WRITE"
  "SYS_FSTAT64 \<noteq> SYS_READ" "SYS_FSTAT64 \<noteq> SYS_WRITE" "SYS_FSTAT64 \<noteq> SYS_CLOSE"
  "SYS_IOCTL \<noteq> SYS_READ" "SYS_IOCTL \<noteq> SYS_WRITE" "SYS_IOCTL \<noteq> SYS_CLOSE"
  "SYS_IOCTL \<noteq> SYS_FSTAT64"
  by (simp_all add: SYS_READ_def SYS_WRITE_def SYS_CLOSE_def SYS_FSTAT64_def SYS_IOCTL_def
      SYS_OPENAT_def)

lemma sample_boot_table:
  "inodes sample_boot = [0, 1, 2, 3]"
  "brk sample_boot = 4"
  "ext sample_boot = ()"
  "mem sample_boot = sample_mem"
  "stat_mem sample_boot = (\<lambda>a. zero_Stat)"
  by (simp_all add: sample_boot_def vfsInit_def empty_table_def AllocFileNode_def AllocInode_def
      NewFile_def new_Inode_def Let_def sample_env_def numeral_2_eq_2 numeral_3_eq_3)

lemma sample_boot_heap:
  "heap sample_boot 0 = \<lparr>File = NewFile (Some (Obj 0)) None None, Fd = 0, inuse = True\<rparr>"
  "heap sample_boot 1 = \<lparr>File = NewFile None (Some (Obj 0)) None, Fd = 1, inuse = True\<rparr>"
  "heap sample_boot 2 = \<lparr>File = NewFile None (Some (Obj 0)) None, Fd = 2, inuse = True\<rparr>"
  "heap sample_boot 3 = \<lparr>File = NewFile None None None, Fd = 3, inuse = True\<rparr>"
  "heap sample_boot 4 = new_Inode"
  "heap sample_boot (Suc 0) = \<lparr>File = NewFile None (Some (Obj 0)) None, Fd = 1, inuse = True\<rparr>"
  by (simp_all add: sample_boot_def vfsInit_def empty_table_def AllocFileNode_def AllocInode_def
      NewFile_def new_Inode_def Let_def sample_env_def)

lemma request_Args:
  "Args (request a0 a1 a2 a3) 0 = a0" "Args (request a0 a1 a2 a3) 1 = a1"
  "Args (request a0 a1 a2 a3) 2 = a2" "Args (request a0 a1 a2 a3) 3 = a3"
  "Ret (request a0 a1 a2 a3) = RetWord 0" "trace (request a0 a1 a2 a3) = []"
  by (simp_all add: request_def)

lemma sample_boot_GetInode:
  "GetInode 0 sample_boot = Return (Inr 0)" "GetInode 1 sample_boot = Return (Inr 1)"
  "GetInode 2 sample_boot = Return (Inr 2)" "GetInode 3 sample_boot = Return (Inr 3)"
  "GetInode 4 sample_boot = Return (Inl EBADF)"
  by (simp_all add: GetInode_def sample_boot_table sample_boot_heap Let_def)

lemma ext_unit: "(s :: unit state)\<lparr>ext := ()\<rparr> = s"
  by (cases s) simp

section \<open>Close\<close>

text \<open>
  What close does for a descriptor that holds a stream: the entry is released whatever
  the stream's \<^verbatim>\<open>Close\<close> returned. Afterwards the entry is not in use, holds no stream,
  has \<^verbatim>\<open>Fd = -1\<close>, and lookup of the handle fails with \<open>EBADF\<close>. An error of the
  stream's \<^verbatim>\<open>Close\<close> is the handler's result and is what the request is given as its
  encoded result.
\<close>

lemma sysClose_releases:
  assumes "GetInode (sint (Args c 0)) s = Return (Inr ni)"
    and "File (heap s ni) = Some f"
  shows "let (err, x) = File_Close E f (ext s);
             s' = Release ni (s\<lparr>ext := x\<rparr>)
         in sysClose E ni s = Return (err, s') \<and>
            fscall E SYS_CLOSE c s =
              Return (Done (case err of Some e \<Rightarrow> set_Ret (isyscall_Error e) c | None \<Rightarrow> c), s') \<and>
            syscall_result (fscall E SYS_CLOSE c s) =
              Some (case err of Some e \<Rightarrow> RetError e | None \<Rightarrow> Ret c) \<and>
            heap s' ni = \<lparr>File = None, Fd = - 1, inuse = False\<rparr> \<and>
            GetInode (sint (Args c 0)) s' = Return (Inl EBADF)"
proof -
  obtain err x where cl: "File_Close E f (ext s) = (err, x)" by (cases "File_Close E f (ext s)")
  have A: "sysClose E ni s = Return (err, Release ni (s\<lparr>ext := x\<rparr>))"
    using assms(2) cl by (simp add: sysClose_def)
  have B: "fscall E SYS_CLOSE c s =
      Return (Done (case err of Some e \<Rightarrow> set_Ret (isyscall_Error e) c | None \<Rightarrow> c),
              Release ni (s\<lparr>ext := x\<rparr>))"
    by (simp add: fscall_resolved [OF opcodes_distinct(3) assms(1)] fscall_switch_def
        opcodes_distinct A)
  have C: "heap (Release ni (s\<lparr>ext := x\<rparr>)) ni = \<lparr>File = None, Fd = - 1, inuse = False\<rparr>"
    by (simp add: Release_def)
  have D: "GetInode (sint (Args c 0)) (Release ni (s\<lparr>ext := x\<rparr>)) = Return (Inl EBADF)"
    using assms(1) unfolding GetInode_Inr by (simp add: GetInode_def Release_def Let_def)
  have E: "syscall_result (fscall E SYS_CLOSE c s) =
      Some (case err of Some e \<Rightarrow> RetError e | None \<Rightarrow> Ret c)"
    by (simp add: B Done_def set_Ret_def isyscall_Error_def split: option.split)
  show ?thesis using A B C D E by (simp add: cl)
qed

text \<open>
  Closing descriptor 1 after boot: the wrapper has no closer, its \<^verbatim>\<open>Close\<close> reports
  \<open>EINVAL\<close>, and the entry is released all the same.
\<close>

lemma sysClose_releases_boot:
  "GetInode (sint (Args (request 1 0 0 0) 0)) sample_boot = Return (Inr 1) \<and>
   File (heap sample_boot 1) = Some (FileHelper (FH None (Some (Obj 0)) None)) \<and>
   syscall_result (fscall sample_env SYS_CLOSE (request 1 0 0 0) sample_boot) = Some (RetError EINVAL) \<and>
   heap (Release 1 sample_boot) 1 = \<lparr>File = None, Fd = - 1, inuse = False\<rparr> \<and>
   GetInode 1 (Release 1 sample_boot) = Return (Inl EBADF)"
proof -
  have a: "GetInode (sint (Args (request 1 0 0 0) 0)) sample_boot = Return (Inr 1)"
    by (simp add: request_Args sample_boot_GetInode)
  have b: "File (heap sample_boot 1) = Some (FileHelper (FH None (Some (Obj 0)) None))"
    by (simp add: sample_boot_heap NewFile_def)
  show ?thesis
    using a b sysClose_releases [OF a b, of sample_env]
    by (simp add: fileHelper_Close_def Let_def request_Args sample_boot_table ext_unit
        Done_def set_Ret_def isyscall_Error_def)
qed


section \<open>Read and write\<close>

lemma fill_buffer_Nil: "fill_buffer m b [] = m"
  by (simp add: fill_buffer_def)

lemma fscall_READ:
  assumes "GetInode (sint (Args c 0)) s = Return (Inr ni)"
    and "sysRead E ni (Args c 1) (Args c 2) s = Return ((n, err), s')"
  shows "fscall E SYS_READ c s =
           Return (Done (case err of
                           Some e \<Rightarrow> set_Ret (isyscall_Error e) (set_Ret (RetWord (word_of_int n)) c)
                         | None \<Rightarrow> set_Ret (RetWord (word_of_int n)) c), s')"
  using assms(2)
  by (simp add: fscall_resolved [OF opcodes_distinct(1) assms(1)] fscall_switch_def)

lemma fscall_WRITE:
  assumes "GetInode (sint (Args c 0)) s = Return (Inr ni)"
    and "sysWrite E ni (Args c 1) (Args c 2) s = Return ((n, err), s')"
  shows "fscall E SYS_WRITE c s =
           Return (Done (case err of
                           Some e \<Rightarrow> set_Ret (isyscall_Error e) (set_Ret (RetWord (word_of_int n)) c)
                         | None \<Rightarrow> set_Ret (RetWord (word_of_int n)) c), s')"
  using assms(2)
  by (simp add: fscall_resolved [OF opcodes_distinct(2) assms(1)] fscall_switch_def
      opcodes_distinct)

lemma Ret_Done_set_Ret: "Ret (Done (set_Ret v c)) = v"
  by (simp add: Done_def set_Ret_def)

text \<open>
  C6. For an open descriptor whose stream's \<^verbatim>\<open>Read\<close> returns zero bytes together with
  \<^verbatim>\<open>io.EOF\<close>, the read handler returns the count 0 with a nil error, and the request's
  result is the word 0, not an encoded error.
\<close>

theorem sysRead_end_of_stream:
  assumes "GetInode (sint (Args c 0)) s = Return (Inr ni)"
    and "File (heap s ni) = Some f"
    and "File_Read E f (UnsafeBuffer (Args c 1) (sint (Args c 2))) (ext s) = ((0, Some EOF, stored), x)"
  shows "sysRead E ni (Args c 1) (Args c 2) s =
           Return ((0, None),
             s\<lparr>mem := fill_buffer (mem s) (UnsafeBuffer (Args c 1) (sint (Args c 2))) stored, ext := x\<rparr>) \<and>
         syscall_result (fscall E SYS_READ c s) = Some (RetWord 0)"
proof -
  have A: "sysRead E ni (Args c 1) (Args c 2) s =
           Return ((0, None),
             s\<lparr>mem := fill_buffer (mem s) (UnsafeBuffer (Args c 1) (sint (Args c 2))) stored, ext := x\<rparr>)"
    using assms(2,3) by (simp add: sysRead_def Let_def)
  have "syscall_result (fscall E SYS_READ c s) = Some (RetWord 0)"
    by (simp add: fscall_READ [OF assms(1) A] Ret_Done_set_Ret)
  with A show ?thesis by simp
qed

text \<open>Reading descriptor 0 after boot, the console being at end of input.\<close>

theorem sysRead_end_of_stream_witness:
  "GetInode (sint (Args (request 0 12288 16 0) 0)) sample_boot = Return (Inr 0) \<and>
   File (heap sample_boot 0) = Some (FileHelper (FH (Some (Obj 0)) None None)) \<and>
   File_Read sample_env (FileHelper (FH (Some (Obj 0)) None None))
     (UnsafeBuffer (Args (request 0 12288 16 0) 1) (sint (Args (request 0 12288 16 0) 2)))
     (ext sample_boot) = ((0, Some EOF, []), ()) \<and>
   syscall_result (fscall sample_env SYS_READ (request 0 12288 16 0) sample_boot) = Some (RetWord 0)"
proof -
  have a: "GetInode (sint (Args (request 0 12288 16 0) 0)) sample_boot = Return (Inr 0)"
    by (simp add: request_Args sample_boot_GetInode)
  have b: "File (heap sample_boot 0) = Some (FileHelper (FH (Some (Obj 0)) None None))"
    by (simp add: sample_boot_heap NewFile_def)
  have c: "File_Read sample_env (FileHelper (FH (Some (Obj 0)) None None))
     (UnsafeBuffer (Args (request 0 12288 16 0) 1) (sint (Args (request 0 12288 16 0) 2)))
     (ext sample_boot) = ((0, Some EOF, []), ())"
    by (simp add: fileHelper_Read_def sample_env_def)
  show ?thesis
    using a b c sysRead_end_of_stream [OF a b c] by simp
qed

text \<open>
  C7. A wrapper built without a read half answers \<^verbatim>\<open>Read\<close> with zero bytes and
  \<open>EINVAL\<close>, the error this code uses for a stream that cannot be read; one built
  without a write half answers \<^verbatim>\<open>Write\<close> with zero bytes and \<open>EROFS\<close>. Through an
  open descriptor the read and write syscalls hand these errors to the caller, and the
  state is left as it was.
\<close>

theorem one_direction_streams:
  assumes "GetInode (sint (Args c 0)) s = Return (Inr ni)"
  shows "fileHelper_Read E (FH None w cl) p x = ((0, Some EINVAL, []), x) \<and>
         fileHelper_Write E (FH r None cl) bs x = ((0, Some EROFS), x) \<and>
         (File (heap s ni) = NewFile None w cl \<longrightarrow>
            sysRead E ni (Args c 1) (Args c 2) s = Return ((0, Some EINVAL), s) \<and>
            syscall_result (fscall E SYS_READ c s) = Some (RetError EINVAL)) \<and>
         (File (heap s ni) = NewFile r None cl \<longrightarrow>
            sysWrite E ni (Args c 1) (Args c 2) s = Return ((0, Some EROFS), s) \<and>
            syscall_result (fscall E SYS_WRITE c s) = Some (RetError EROFS))"
proof -
  have rd: "sysRead E ni (Args c 1) (Args c 2) s = Return ((0, Some EINVAL), s)"
    if "File (heap s ni) = NewFile None w cl"
    using that by (simp add: sysRead_def NewFile_def fileHelper_Read_def Let_def fill_buffer_Nil)
  have wr: "sysWrite E ni (Args c 1) (Args c 2) s = Return ((0, Some EROFS), s)"
    if "File (heap s ni) = NewFile r None cl"
    using that by (simp add: sysWrite_def NewFile_def fileHelper_Write_def Let_def)
  have "syscall_result (fscall E SYS_READ c s) = Some (RetError EINVAL)"
    if "File (heap s ni) = NewFile None w cl"
    by (simp add: fscall_READ [OF assms rd [OF that]] Ret_Done_set_Ret isyscall_Error_def)
  moreover have "syscall_result (fscall E SYS_WRITE c s) = Some (RetError EROFS)"
    if "File (heap s ni) = NewFile r None cl"
    by (simp add: fscall_WRITE [OF assms wr [OF that]] Ret_Done_set_Ret isyscall_Error_def)
  ultimately show ?thesis
    using rd wr by (simp add: fileHelper_Read_def fileHelper_Write_def)
qed

text \<open>After boot: reading stdout (descriptor 1) and writing stdin (descriptor 0).\<close>

theorem one_direction_streams_witness:
  "GetInode (sint (Args (request 1 12288 16 0) 0)) sample_boot = Return (Inr 1) \<and>
   File (heap sample_boot 1) = NewFile None (Some (Obj 0)) None \<and>
   syscall_result (fscall sample_env SYS_READ (request 1 12288 16 0) sample_boot) = Some (RetError EINVAL) \<and>
   GetInode (sint (Args (request 0 8192 4 0) 0)) sample_boot = Return (Inr 0) \<and>
   File (heap sample_boot 0) = NewFile (Some (Obj 0)) None None \<and>
   syscall_result (fscall sample_env SYS_WRITE (request 0 8192 4 0) sample_boot) = Some (RetError EROFS)"
proof -
  have a: "GetInode (sint (Args (request 1 12288 16 0) 0)) sample_boot = Return (Inr 1)"
    by (simp add: request_Args sample_boot_GetInode)
  have b: "GetInode (sint (Args (request 0 8192 4 0) 0)) sample_boot = Return (Inr 0)"
    by (simp add: request_Args sample_boot_GetInode)
  show ?thesis
    using a b
      one_direction_streams [OF a, where E = sample_env and w = "Some (Obj 0)" and cl = None]
      one_direction_streams [OF b, where E = sample_env and r = "Some (Obj 0)" and cl = None]
    by (simp add: sample_boot_heap)
qed

text \<open>
  C8. For an open descriptor holding a stream: when the stream's \<^verbatim>\<open>Read\<close> returns a
  count other than zero, whatever error comes with it, the read handler returns that
  count with a nil error and the request's result is the count; the same holds of
  \<^verbatim>\<open>Write\<close> and the write handler.
\<close>

theorem nonzero_count_drops_error:
  assumes "GetInode (sint (Args c 0)) s = Return (Inr ni)"
    and "File (heap s ni) = Some f"
  shows "(case File_Read E f (UnsafeBuffer (Args c 1) (sint (Args c 2))) (ext s) of
            ((ret, err, stored), x) \<Rightarrow>
              ret \<noteq> 0 \<longrightarrow>
                sysRead E ni (Args c 1) (Args c 2) s =
                  Return ((ret, None),
                    s\<lparr>mem := fill_buffer (mem s) (UnsafeBuffer (Args c 1) (sint (Args c 2))) stored,
                      ext := x\<rparr>) \<and>
                syscall_result (fscall E SYS_READ c s) = Some (RetWord (word_of_int ret))) \<and>
         (case File_Write E f (load_bytes (mem s) (UnsafeBuffer (Args c 1) (sint (Args c 2)))) (ext s) of
            ((n, err), x) \<Rightarrow>
              n \<noteq> 0 \<longrightarrow>
                sysWrite E ni (Args c 1) (Args c 2) s = Return ((n, None), s\<lparr>ext := x\<rparr>) \<and>
                syscall_result (fscall E SYS_WRITE c s) = Some (RetWord (word_of_int n)))"
proof -
  obtain ret err stored x where
    rd: "File_Read E f (UnsafeBuffer (Args c 1) (sint (Args c 2))) (ext s) = ((ret, err, stored), x)"
    by (cases "File_Read E f (UnsafeBuffer (Args c 1) (sint (Args c 2))) (ext s)") auto
  obtain n err' x' where
    wr: "File_Write E f (load_bytes (mem s) (UnsafeBuffer (Args c 1) (sint (Args c 2)))) (ext s) = ((n, err'), x')"
    by (cases "File_Write E f (load_bytes (mem s) (UnsafeBuffer (Args c 1) (sint (Args c 2)))) (ext s)") auto
  have A: "sysRead E ni (Args c 1) (Args c 2) s =
      Return ((ret, None),
        s\<lparr>mem := fill_buffer (mem s) (UnsafeBuffer (Args c 1) (sint (Args c 2))) stored, ext := x\<rparr>)"
    if "ret \<noteq> 0"
    using that assms(2) rd by (simp add: sysRead_def Let_def)
  have B: "sysWrite E ni (Args c 1) (Args c 2) s = Return ((n, None), s\<lparr>ext := x'\<rparr>)"
    if "n \<noteq> 0"
    using that assms(2) wr by (simp add: sysWrite_def Let_def)
  have "syscall_result (fscall E SYS_READ c s) = Some (RetWord (word_of_int ret))" if "ret \<noteq> 0"
    by (simp add: fscall_READ [OF assms(1) A [OF that]] Ret_Done_set_Ret)
  moreover have "syscall_result (fscall E SYS_WRITE c s) = Some (RetWord (word_of_int n))" if "n \<noteq> 0"
    by (simp add: fscall_WRITE [OF assms(1) B [OF that]] Ret_Done_set_Ret)
  ultimately show ?thesis using A B rd wr by simp
qed


section \<open>The example machine with an opened file\<close>

lemma request_Args_Suc: "Args (request a0 a1 a2 a3) (Suc 0) = a1"
  by (simp add: request_def)

lemma sample_cstring:
  "cstring sample_mem 4096 = Some [47, 109, 105, 115, 115, 105, 110, 103]"
  "cstring sample_mem 8192 = Some [47, 101, 116, 99]"
  by (simp_all add: cstring_def sample_mem_def cstring_scan.simps load_bytes_def UnsafeBuffer_def
      upt_rec)

lemma sample_boot_AllocInode:
  "AllocInode sample_boot =
     (4, 4, sample_boot\<lparr>inodes := [0, 1, 2, 3, 4],
              heap := (heap sample_boot)(4 := \<lparr>File = None, Fd = 4, inuse = True\<rparr>),
              brk := 5\<rparr>)"
  by (simp add: AllocInode_def sample_boot_table sample_boot_heap NewFile_def new_Inode_def)

lemma sample_sysOpen_etc:
  "sysOpen sample_env 0 8192 0 0 sample_boot =
     Return ((4, None),
       sample_boot\<lparr>inodes := [0, 1, 2, 3, 4],
         heap := (heap sample_boot)(4 := \<lparr>File = Some (Ext (Obj 1)), Fd = 4, inuse = True\<rparr>),
         brk := 5\<rparr>)"
  by (simp add: sysOpen_def sample_boot_table sample_cstring sample_boot_AllocInode sample_env_def
      ext_unit)

lemma sample_opened_table:
  "inodes sample_opened = [0, 1, 2, 3, 4]"
  "ext sample_opened = ()"
  "mem sample_opened = sample_mem"
  "heap sample_opened 4 = \<lparr>File = Some (Ext (Obj 1)), Fd = 4, inuse = True\<rparr>"
  "heap sample_opened 3 = heap sample_boot 3"
  "GetInode 4 sample_opened = Return (Inr 4)"
  "GetInode 3 sample_opened = Return (Inr 3)"
  by (simp_all add: sample_opened_def sample_sysOpen_etc sample_boot_table GetInode_def Let_def
      sample_boot_heap)

text \<open>
  Descriptor 4 is the opened file: its \<^verbatim>\<open>Read\<close> returns 2 and its \<^verbatim>\<open>Write\<close> 3, each
  with an I/O error, and the requests' results are 2 and 3.
\<close>

theorem nonzero_count_drops_error_witness:
  "GetInode (sint (Args (request 4 12288 16 0) 0)) sample_opened = Return (Inr 4) \<and>
   File (heap sample_opened 4) = Some (Ext (Obj 1)) \<and>
   File_Read sample_env (Ext (Obj 1)) (UnsafeBuffer 12288 16) () = ((2, Some (IOError 5), [104, 105]), ()) \<and>
   syscall_result (fscall sample_env SYS_READ (request 4 12288 16 0) sample_opened) = Some (RetWord 2) \<and>
   File_Write sample_env (Ext (Obj 1)) (load_bytes sample_mem (UnsafeBuffer 12288 16)) () = ((3, Some (IOError 6)), ()) \<and>
   syscall_result (fscall sample_env SYS_WRITE (request 4 12288 16 0) sample_opened) = Some (RetWord 3)"
proof -
  have a: "GetInode (sint (Args (request 4 12288 16 0) 0)) sample_opened = Return (Inr 4)"
    by (simp add: request_Args sample_opened_table)
  have b: "File (heap sample_opened 4) = Some (Ext (Obj 1))"
    by (simp add: sample_opened_table)
  have c: "File_Read sample_env (Ext (Obj 1)) (UnsafeBuffer 12288 16) () = ((2, Some (IOError 5), [104, 105]), ())"
    by (simp add: sample_env_def)
  have d: "File_Write sample_env (Ext (Obj 1)) (load_bytes sample_mem (UnsafeBuffer 12288 16)) () = ((3, Some (IOError 6)), ())"
    by (simp add: sample_env_def)
  show ?thesis
    using a b c d nonzero_count_drops_error [OF a b, of sample_env]
    by (simp add: request_Args request_Args_Suc sample_opened_table)
qed

section \<open>Open\<close>

lemma scan_free_Some:
  "scan_free h tbl i = Some (j, a) \<Longrightarrow>
   i \<le> j \<and> j - i < length tbl \<and> tbl ! (j - i) = a \<and> \<not> inuse (h a)"
proof (induction tbl arbitrary: i)
  case Nil
  then show ?case by simp
next
  case (Cons b tbl)
  show ?case
  proof (cases "inuse (h b)")
    case False
    with Cons.prems show ?thesis by simp
  next
    case True
    with Cons.prems have "scan_free h tbl (Suc i) = Some (j, a)" by simp
    from Cons.IH [OF this] show ?thesis by (auto simp: Suc_diff_le nth_Cons')
  qed
qed

lemma AllocInode_handle:
  "case AllocInode s of
     (fd, ni, s1) \<Rightarrow>
       ext s1 = ext s \<and> mem s1 = mem s \<and> stat_mem s1 = stat_mem s \<and>
       GetInode fd s = Return (Inl EBADF) \<and> GetInode fd s1 = Return (Inr ni) \<and>
       (\<forall>x. GetInode fd (s1\<lparr>ext := x\<rparr>) = Return (Inr ni))"
proof (cases "scan_free (heap s) (inodes s) 0")
  case None
  then show ?thesis
    by (simp add: AllocInode_def GetInode_def Let_def)
next
  case (Some p)
  obtain j a where p: "p = (j, a)" by (cases p)
  show ?thesis
  proof (cases j)
    case 0
    with Some p show ?thesis
      by (simp add: AllocInode_def GetInode_def Let_def)
  next
    case (Suc i)
    from scan_free_Some [OF Some [unfolded p]]
    have "j < length (inodes s)" "inodes s ! j = a" "\<not> inuse (heap s a)" by simp_all
    with Some p Suc show ?thesis
      by (simp add: AllocInode_def GetInode_def Let_def del: of_nat_Suc)
  qed
qed

text \<open>
  C1, as the code behaves. When \<^verbatim>\<open>Root.OpenFile\<close> returns an error, \<^verbatim>\<open>sysOpen\<close>
  returns the error (\<open>ENOENT\<close> for a not-exist error) and the request gets it encoded,
  but the state it leaves is the one \<^verbatim>\<open>AllocInode\<close> made: the handle that
  \<^verbatim>\<open>AllocInode\<close> chose was a bad descriptor before the call and resolves to an in-use
  entry after it. The table is not left unchanged.
\<close>

theorem sysOpen_failure_keeps_descriptor:
  assumes "cstring (mem s) (Args c 1) = Some path"
    and "Root_OpenFile E path (sint (Args c 2)) (Args c 3) (ext s) = ((f, Some e), x)"
  shows "case AllocInode s of
           (fd, ni, s1) \<Rightarrow>
             sysOpen E (Args c 0) (Args c 1) (Args c 2) (Args c 3) s =
               Return ((0, Some (if IsNotExist e then ENOENT else e)), s1\<lparr>ext := x\<rparr>) \<and>
             syscall_result (fscall E SYS_OPENAT c s) =
               Some (RetError (if IsNotExist e then ENOENT else e)) \<and>
             GetInode fd s = Return (Inl EBADF) \<and>
             GetInode fd (s1\<lparr>ext := x\<rparr>) = Return (Inr ni)"
proof -
  obtain fd ni s1 where al: "AllocInode s = (fd, ni, s1)" by (cases "AllocInode s")
  from AllocInode_handle [of s] al
  have h: "ext s1 = ext s" "GetInode fd s = Return (Inl EBADF)"
    "GetInode fd (s1\<lparr>ext := x\<rparr>) = Return (Inr ni)" by simp_all
  have A: "sysOpen E (Args c 0) (Args c 1) (Args c 2) (Args c 3) s =
      Return ((0, Some (if IsNotExist e then ENOENT else e)), s1\<lparr>ext := x\<rparr>)"
    using assms al h(1) by (simp add: sysOpen_def)
  have "syscall_result (fscall E SYS_OPENAT c s) =
      Some (RetError (if IsNotExist e then ENOENT else e))"
    using A by (simp add: fscall_def Ret_Done_set_Ret isyscall_Error_def)
  with A h show ?thesis by (simp add: al)
qed

text \<open>
  After boot, opening \<^verbatim>\<open>/missing\<close>: the result is the encoded \<open>ENOENT\<close>, the table
  has grown from four entries to five, and handle 4 resolves where it did not before.
\<close>

theorem sysOpen_failure_keeps_descriptor_witness:
  "cstring (mem sample_boot) (Args (request 0 4096 0 0) 1) = Some [47, 109, 105, 115, 115, 105, 110, 103] \<and>
   Root_OpenFile sample_env [47, 109, 105, 115, 115, 105, 110, 103]
     (sint (Args (request 0 4096 0 0) 2)) (Args (request 0 4096 0 0) 3) (ext sample_boot)
     = ((None, Some (NotExistError 0)), ()) \<and>
   AllocInode sample_boot =
     (4, 4, sample_boot\<lparr>inodes := [0, 1, 2, 3, 4],
              heap := (heap sample_boot)(4 := \<lparr>File = None, Fd = 4, inuse = True\<rparr>),
              brk := 5\<rparr>) \<and>
   syscall_result (fscall sample_env SYS_OPENAT (request 0 4096 0 0) sample_boot) = Some (RetError ENOENT) \<and>
   GetInode 4 sample_boot = Return (Inl EBADF) \<and>
   GetInode 4 (sample_boot\<lparr>inodes := [0, 1, 2, 3, 4],
              heap := (heap sample_boot)(4 := \<lparr>File = None, Fd = 4, inuse = True\<rparr>),
              brk := 5\<rparr>) = Return (Inr 4)"
proof -
  have a: "cstring (mem sample_boot) (Args (request 0 4096 0 0) 1) = Some [47, 109, 105, 115, 115, 105, 110, 103]"
    by (simp add: request_Args request_Args_Suc sample_boot_table sample_cstring)
  have b: "Root_OpenFile sample_env [47, 109, 105, 115, 115, 105, 110, 103]
     (sint (Args (request 0 4096 0 0) 2)) (Args (request 0 4096 0 0) 3) (ext sample_boot)
     = ((None, Some (NotExistError 0)), ())"
    by (simp add: sample_env_def)
  show ?thesis
    using a b sysOpen_failure_keeps_descriptor [OF a b]
    by (simp add: sample_boot_AllocInode ext_unit)
qed

section \<open>Lookup of a handle outside the table\<close>

text \<open>
  C3, as the code behaves on a negative handle. \<^verbatim>\<open>GetInode\<close> tests \<^verbatim>\<open>fd >= len(inodes)\<close>
  only, so a negative handle reaches \<^verbatim>\<open>inodes[fd]\<close> and panics; no \<open>EBADF\<close> is
  returned. Every dispatcher opcode but open passes \<^verbatim>\<open>int(c.Args[0])\<close> to \<^verbatim>\<open>GetInode\<close>,
  so the panic is reached from a syscall whose first argument has its top bit set.
\<close>

theorem GetInode_negative_panics:
  assumes "fd < 0"
  shows "GetInode fd s = Panic IndexOutOfRange \<and>
         (fn \<noteq> SYS_OPENAT \<and> sint (Args c 0) = fd \<longrightarrow> fscall E fn c s = Panic IndexOutOfRange)"
  using assms by (simp add: GetInode_def fscall_def)

text \<open>The read syscall with first argument \<^verbatim>\<open>0xFFFFFFFF\<close>, that is handle -1.\<close>

theorem GetInode_negative_panics_witness:
  "(- 1 :: int) < 0 \<and> GetInode (- 1) sample_boot = Panic IndexOutOfRange \<and>
   SYS_READ \<noteq> SYS_OPENAT \<and> sint (Args (request (- 1) 12288 16 0) 0) = - 1 \<and>
   fscall sample_env SYS_READ (request (- 1) 12288 16 0) sample_boot = Panic IndexOutOfRange"
proof -
  have a: "(- 1 :: int) < 0" by simp
  show ?thesis
    using GetInode_negative_panics [OF a, of sample_boot SYS_READ "request (- 1) 12288 16 0" sample_env]
    by (simp add: opcodes_distinct request_Args)
qed

text \<open>The part of C3 the code does implement: a handle at or past the table's end, and a
  released entry, give \<open>EBADF\<close>.\<close>

lemma GetInode_EBADF:
  "int (length (inodes s)) \<le> fd \<Longrightarrow> GetInode fd s = Return (Inl EBADF)"
  "0 \<le> fd \<Longrightarrow> fd < int (length (inodes s)) \<Longrightarrow> \<not> inuse (heap s (inodes s ! nat fd)) \<Longrightarrow>
   GetInode fd s = Return (Inl EBADF)"
  by (simp_all add: GetInode_def Let_def)


section \<open>A descriptor left without a stream\<close>

lemma sample_sysOpen_missing:
  "sysOpen sample_env 0 4096 0 0 sample_boot =
     Return ((0, Some ENOENT),
       sample_boot\<lparr>inodes := [0, 1, 2, 3, 4],
         heap := (heap sample_boot)(4 := \<lparr>File = None, Fd = 4, inuse = True\<rparr>),
         brk := 5\<rparr>)"
  by (simp add: sysOpen_def sample_boot_table sample_cstring sample_boot_AllocInode sample_env_def
      ext_unit)

lemma sample_leaked_table:
  "inodes sample_leaked = [0, 1, 2, 3, 4]"
  "heap sample_leaked 4 = \<lparr>File = None, Fd = 4, inuse = True\<rparr>"
  "GetInode 4 sample_leaked = Return (Inr 4)"
  by (simp_all add: sample_leaked_def sample_sysOpen_missing sample_boot_table GetInode_def Let_def)

text \<open>
  C5, as the code behaves on an open descriptor that holds no stream. \<^verbatim>\<open>sysClose\<close>
  calls \<^verbatim>\<open>ni.File.Close()\<close> first; when \<^verbatim>\<open>File\<close> is nil the call panics, \<^verbatim>\<open>Release\<close>
  is not reached, and the close syscall neither releases the entry nor returns an error.
  Such an entry is what a failed open leaves in the table.
\<close>

theorem sysClose_nil_File_panics:
  assumes "GetInode (sint (Args c 0)) s = Return (Inr ni)"
    and "File (heap s ni) = None"
  shows "sysClose E ni s = Panic NilDereference \<and>
         fscall E SYS_CLOSE c s = Panic NilDereference \<and>
         syscall_result (fscall E SYS_CLOSE c s) = None"
proof -
  have A: "sysClose E ni s = Panic NilDereference"
    using assms(2) by (simp add: sysClose_def)
  have "fscall E SYS_CLOSE c s = Panic NilDereference"
    by (simp add: fscall_resolved [OF opcodes_distinct(3) assms(1)] fscall_switch_def
        opcodes_distinct A)
  with A show ?thesis by simp
qed

text \<open>
  After boot and a failed open of \<^verbatim>\<open>/missing\<close>, handle 4 resolves to an entry in use
  with a nil \<^verbatim>\<open>File\<close>, and closing it panics.
\<close>

theorem sysClose_nil_File_panics_witness:
  "GetInode (sint (Args (request 4 0 0 0) 0)) sample_leaked = Return (Inr 4) \<and>
   File (heap sample_leaked 4) = None \<and> inuse (heap sample_leaked 4) \<and>
   sysClose sample_env 4 sample_leaked = Panic NilDereference \<and>
   fscall sample_env SYS_CLOSE (request 4 0 0 0) sample_leaked = Panic NilDereference"
proof -
  have a: "GetInode (sint (Args (request 4 0 0 0) 0)) sample_leaked = Return (Inr 4)"
    by (simp add: request_Args sample_leaked_table)
  have b: "File (heap sample_leaked 4) = None"
    by (simp add: sample_leaked_table)
  show ?thesis
    using a b sysClose_nil_File_panics [OF a b, of sample_env]
    by (simp add: sample_leaked_table)
qed

section \<open>Stat and ioctl by descriptor\<close>

lemma fscall_FSTAT64:
  assumes "GetInode (sint (Args c 0)) s = Return (Inr ni)"
    and "sysStat E ni (Args c 1) s = (err, s')"
  shows "fscall E SYS_FSTAT64 c s =
           Return (Done (case err of Some e \<Rightarrow> set_Ret (isyscall_Error e) c | None \<Rightarrow> c), s')"
  using assms(2)
  by (simp add: fscall_resolved [OF opcodes_distinct(4) assms(1)] fscall_switch_def
      opcodes_distinct)

lemma fscall_IOCTL:
  assumes "GetInode (sint (Args c 0)) s = Return (Inr ni)"
    and "sysIoctl E ni (Args c 1) (Args c 2) s = (err, s')"
  shows "fscall E SYS_IOCTL c s =
           Return (Done (case err of Some e \<Rightarrow> set_Ret (isyscall_Error e) c | None \<Rightarrow> c), s')"
  using assms(2)
  by (simp add: fscall_resolved [OF opcodes_distinct(5) assms(1)] fscall_switch_def
      opcodes_distinct)

text \<open>
  C4, amended. For an open descriptor: when the stream held is not an \<^verbatim>\<open>afero.File\<close>,
  fstat fails with \<open>EINVAL\<close> and leaves the whole state, the stat output structure
  included, as it was; when the stream held is not an \<^verbatim>\<open>Ioctler\<close>, ioctl fails with
  \<open>EINVAL\<close>. A wrapper made by \<^verbatim>\<open>NewFile\<close> always is an \<^verbatim>\<open>Ioctler\<close>: when the half it
  selects (the read half if wired, else the write half) is missing or has no
  \<^verbatim>\<open>Ioctl\<close>, ioctl fails with \<open>EBADF\<close>, and the state is left as it was.
\<close>

theorem stat_ioctl_capability:
  assumes "GetInode (sint (Args c 0)) s = Return (Inr ni)"
  shows "(as_afero_File E (File (heap s ni)) = None \<longrightarrow>
            sysStat E ni (Args c 1) s = (Some EINVAL, s) \<and>
            fscall E SYS_FSTAT64 c s = Return (Done (set_Ret (RetError EINVAL) c), s)) \<and>
         (as_Ioctler E (File (heap s ni)) = None \<longrightarrow>
            sysIoctl E ni (Args c 1) (Args c 2) s = (Some EINVAL, s) \<and>
            fscall E SYS_IOCTL c s = Return (Done (set_Ret (RetError EINVAL) c), s)) \<and>
         (File (heap s ni) = Some (FileHelper r) \<and> \<not> half_is_Ioctler E r \<longrightarrow>
            sysIoctl E ni (Args c 1) (Args c 2) s = (Some EBADF, s) \<and>
            fscall E SYS_IOCTL c s = Return (Done (set_Ret (RetError EBADF) c), s))"
proof -
  have st: "sysStat E ni (Args c 1) s = (Some EINVAL, s)"
    if "as_afero_File E (File (heap s ni)) = None"
    using that by (simp add: sysStat_def)
  have io: "sysIoctl E ni (Args c 1) (Args c 2) s = (Some EINVAL, s)"
    if "as_Ioctler E (File (heap s ni)) = None"
    using that by (simp add: sysIoctl_def)
  have fh: "sysIoctl E ni (Args c 1) (Args c 2) s = (Some EBADF, s)"
    if "File (heap s ni) = Some (FileHelper r)" "\<not> half_is_Ioctler E r"
    using that
    by (auto simp: sysIoctl_def fileHelper_Ioctl_def half_is_Ioctler_def Let_def
        split: option.splits)
  show ?thesis
    using st io fh fscall_FSTAT64 [OF assms st] fscall_IOCTL [OF assms io] fscall_IOCTL [OF assms fh]
    by (simp add: isyscall_Error_def)
qed

text \<open>
  With the file opened as descriptor 4: fstat and ioctl on the placeholder descriptor 3
  give \<open>EINVAL\<close> and \<open>EBADF\<close>, ioctl on the file gives \<open>EINVAL\<close>.
\<close>

theorem stat_ioctl_capability_witness:
  "GetInode (sint (Args (request 3 20480 0 0) 0)) sample_opened = Return (Inr 3) \<and>
   as_afero_File sample_env (File (heap sample_opened 3)) = None \<and>
   syscall_result (fscall sample_env SYS_FSTAT64 (request 3 20480 0 0) sample_opened) = Some (RetError EINVAL) \<and>
   File (heap sample_opened 3) = Some (FileHelper (FH None None None)) \<and>
   \<not> half_is_Ioctler sample_env (FH None None None) \<and>
   syscall_result (fscall sample_env SYS_IOCTL (request 3 20480 0 0) sample_opened) = Some (RetError EBADF) \<and>
   GetInode (sint (Args (request 4 0 0 0) 0)) sample_opened = Return (Inr 4) \<and>
   as_Ioctler sample_env (File (heap sample_opened 4)) = None \<and>
   syscall_result (fscall sample_env SYS_IOCTL (request 4 0 0 0) sample_opened) = Some (RetError EINVAL)"
proof -
  have a: "GetInode (sint (Args (request 3 20480 0 0) 0)) sample_opened = Return (Inr 3)"
    by (simp add: request_Args sample_opened_table)
  have b: "GetInode (sint (Args (request 4 0 0 0) 0)) sample_opened = Return (Inr 4)"
    by (simp add: request_Args sample_opened_table)
  have c: "File (heap sample_opened 3) = Some (FileHelper (FH None None None))"
    by (simp add: sample_opened_table sample_boot_heap NewFile_def)
  have d: "as_Ioctler sample_env (File (heap sample_opened 4)) = None"
    by (simp add: sample_opened_table sample_env_def)
  show ?thesis
    using a b c d
      stat_ioctl_capability [OF a, of sample_env "FH None None None"]
      stat_ioctl_capability [OF b, of sample_env "FH None None None"]
    by (simp add: half_is_Ioctler_def Ret_Done_set_Ret)
qed

text \<open>
  C4 as first stated fails: descriptor 3 after boot holds \<^verbatim>\<open>NewFile(nil, nil, nil)\<close>, a
  stream with no half that could serve an ioctl, and the ioctl syscall on it fails with
  \<open>EBADF\<close>, not with \<open>EINVAL\<close>.
\<close>

theorem ioctl_capability_counterexample:
  "GetInode (sint (Args (request 3 0 0 0) 0)) sample_boot = Return (Inr 3) \<and>
   File (heap sample_boot 3) = NewFile None None None \<and>
   \<not> half_is_Ioctler sample_env (FH None None None) \<and>
   syscall_result (fscall sample_env SYS_IOCTL (request 3 0 0 0) sample_boot) = Some (RetError EBADF) \<and>
   syscall_result (fscall sample_env SYS_IOCTL (request 3 0 0 0) sample_boot) \<noteq> Some (RetError EINVAL)"
proof -
  have a: "GetInode (sint (Args (request 3 0 0 0) 0)) sample_boot = Return (Inr 3)"
    by (simp add: request_Args sample_boot_GetInode)
  have b: "sysIoctl sample_env 3 (Args (request 3 0 0 0) 1) (Args (request 3 0 0 0) 2) sample_boot
             = (Some EBADF, sample_boot)"
    by (simp add: sysIoctl_def sample_boot_heap NewFile_def fileHelper_Ioctl_def ext_unit)
  show ?thesis
    using a by (simp add: fscall_IOCTL [OF a b] sample_boot_heap half_is_Ioctler_def
        Ret_Done_set_Ret isyscall_Error_def)
qed

section \<open>The completion signal\<close>

lemma completed_Done:
  "trace c1 = trace c @ evs \<Longrightarrow> Complete \<notin> set evs \<Longrightarrow> completed_once_last c (Done c1)"
  by (simp add: completed_once_last_def Done_def Let_def count_list_0_iff)

lemma completed_Done_cases:
  "completed_once_last c (Done c)"
  "completed_once_last c (Done (set_Ret v c))"
  "completed_once_last c (Done (set_Ret v' (set_Ret v c)))"
    by (rule completed_Done [where evs = "[]"], simp, simp)
       (rule completed_Done [where evs = "[Assign v]"], simp add: set_Ret_def, simp,
        rule completed_Done [where evs = "[Assign v, Assign v']"], simp add: set_Ret_def, simp)

lemma completed_Done_option:
  "completed_once_last c (Done (case err of Some e \<Rightarrow> set_Ret (k e) c | None \<Rightarrow> c))"
  "completed_once_last c
     (Done (case err of Some e \<Rightarrow> set_Ret (k e) (set_Ret v c) | None \<Rightarrow> set_Ret v c))"
  by (cases err; simp add: completed_Done_cases)+

lemma sysRead_returns:
  "File (heap s ni) \<noteq> None \<Longrightarrow> \<exists>n err s'. sysRead E ni p k s = Return ((n, err), s')"
  by (auto simp: sysRead_def Let_def split: prod.splits)

lemma sysWrite_returns:
  "File (heap s ni) \<noteq> None \<Longrightarrow> \<exists>n err s'. sysWrite E ni p k s = Return ((n, err), s')"
  by (auto simp: sysWrite_def Let_def split: prod.splits)

lemma sysClose_returns:
  "File (heap s ni) \<noteq> None \<Longrightarrow> \<exists>err s'. sysClose E ni s = Return (err, s')"
  by (auto simp: sysClose_def Let_def split: prod.splits)

lemma sysOpen_returns:
  "cstring (mem s) name \<noteq> None \<Longrightarrow>
   \<exists>fd err s'. sysOpen E dirfd name flags perm s = Return ((fd, err), s')"
  by (auto simp: sysOpen_def Let_def split: prod.splits option.splits)

lemma fscall_resolved_completes:
  assumes ok: "GetInode (sint (Args c 0)) s = Return (Inr ni)"
    and fn: "fn \<noteq> SYS_OPENAT"
    and strm: "fn = SYS_READ \<or> fn = SYS_WRITE \<or> fn = SYS_CLOSE \<Longrightarrow> File (heap s ni) \<noteq> None"
  shows "completes c (fscall E fn c s)"
proof -
  consider "fn = SYS_READ" | "fn = SYS_WRITE" | "fn = SYS_CLOSE" | "fn = SYS_FSTAT64"
    | "fn = SYS_IOCTL"
    | "fn \<noteq> SYS_READ" "fn \<noteq> SYS_WRITE" "fn \<noteq> SYS_CLOSE" "fn \<noteq> SYS_FSTAT64" "fn \<noteq> SYS_IOCTL"
    by blast
  then show ?thesis
  proof cases
    case 1
    with strm obtain n err s' where "sysRead E ni (Args c 1) (Args c 2) s = Return ((n, err), s')"
      using sysRead_returns by blast
    from fscall_READ [OF ok this] show ?thesis
      by (simp add: 1 completed_Done_option)
  next
    case 2
    with strm obtain n err s' where "sysWrite E ni (Args c 1) (Args c 2) s = Return ((n, err), s')"
      using sysWrite_returns by blast
    from fscall_WRITE [OF ok this] show ?thesis
      by (simp add: 2 completed_Done_option)
  next
    case 3
    with strm obtain err s' where cl: "sysClose E ni s = Return (err, s')"
      using sysClose_returns by blast
    show ?thesis
      by (simp add: 3 fscall_resolved [OF opcodes_distinct(3) ok] fscall_switch_def
          opcodes_distinct cl completed_Done_option)
  next
    case 4
    obtain err s' where "sysStat E ni (Args c 1) s = (err, s')"
      by (cases "sysStat E ni (Args c 1) s")
    from fscall_FSTAT64 [OF ok this] show ?thesis
      by (simp add: 4 completed_Done_option)
  next
    case 5
    obtain err s' where "sysIoctl E ni (Args c 1) (Args c 2) s = (err, s')"
      by (cases "sysIoctl E ni (Args c 1) (Args c 2) s")
    from fscall_IOCTL [OF ok this] show ?thesis
      by (simp add: 5 completed_Done_option)
  next
    case 6
    then show ?thesis
      by (simp add: fscall_resolved [OF fn ok] fscall_switch_def completed_Done_cases)
  qed
qed

text \<open>
  The requests on which the handlers return: when the path is NUL-terminated, the handle
  is not negative, and a descriptor that is read, written or closed holds a stream, the
  dispatcher (for any opcode) and \<^verbatim>\<open>sysFstatat64\<close> return, the completion signal is
  fired exactly once, and nothing is done to the request after it. This covers open
  (success and failure), a lookup that fails with \<open>EBADF\<close>, and every handler whether
  it reports an error or not.
\<close>

lemma completion_fires_once_last:
  assumes "fn = SYS_OPENAT \<Longrightarrow> cstring (mem s) (Args c 1) \<noteq> None"
    and "fn \<noteq> SYS_OPENAT \<Longrightarrow> 0 \<le> sint (Args c 0)"
    and "fn = SYS_READ \<or> fn = SYS_WRITE \<or> fn = SYS_CLOSE \<Longrightarrow>
           (case GetInode (sint (Args c 0)) s of
              Return (Inr ni) \<Rightarrow> File (heap s ni) \<noteq> None
            | _ \<Rightarrow> True)"
    and "cstring (mem s) (Args d 1) \<noteq> None"
  shows "completes c (fscall E fn c s) \<and> completes d (sysFstatat64 E d s)"
proof -
  have "completes c (fscall E fn c s)"
  proof (cases "fn = SYS_OPENAT")
    case True
    with assms(1) obtain fd err s' where
      "sysOpen E (Args c 0) (Args c 1) (Args c 2) (Args c 3) s = Return ((fd, err), s')"
      using sysOpen_returns by blast
    then show ?thesis
      using True by (cases err) (simp_all add: fscall_def completed_Done_cases)
  next
    case False
    with assms(2) have nn: "0 \<le> sint (Args c 0)" by simp
    show ?thesis
    proof (cases "GetInode (sint (Args c 0)) s")
      case (Return r)
      show ?thesis
      proof (cases r)
        case (Inl e)
        with Return False show ?thesis
          by (simp add: fscall_def completed_Done_cases)
      next
        case (Inr ni)
        with Return have ok: "GetInode (sint (Args c 0)) s = Return (Inr ni)" by simp
        show ?thesis
          by (rule fscall_resolved_completes [OF ok False]) (use assms(3) ok in simp)
      qed
    next
      case (Panic p)
      with nn show ?thesis by (simp add: GetInode_def Let_def split: if_splits)
    next
      case Diverge
      then show ?thesis by (simp add: GetInode_def Let_def split: if_splits)
    qed
  qed
  moreover have "completes d (sysFstatat64 E d s)"
    using assms(4)
    by (auto simp: sysFstatat64_def Let_def completed_Done_cases
        split: prod.splits option.splits)
  ultimately show ?thesis by simp
qed

text \<open>
  After boot: opening \<^verbatim>\<open>/missing\<close> (open failure), \<^verbatim>\<open>fstatat\<close> of \<^verbatim>\<open>/etc\<close>, reading
  descriptor 1 (handler error) and closing handle 9 (failed lookup).
\<close>

lemma completion_fires_once_last_boot:
  "cstring (mem sample_boot) (Args (request 0 4096 0 0) 1) \<noteq> None \<and>
   cstring (mem sample_boot) (Args (request 0 8192 20480 0) 1) \<noteq> None \<and>
   completes (request 0 4096 0 0) (fscall sample_env SYS_OPENAT (request 0 4096 0 0) sample_boot) \<and>
   completes (request 0 8192 20480 0) (sysFstatat64 sample_env (request 0 8192 20480 0) sample_boot) \<and>
   0 \<le> sint (Args (request 1 12288 16 0) 0) \<and>
   GetInode (sint (Args (request 1 12288 16 0) 0)) sample_boot = Return (Inr 1) \<and>
   File (heap sample_boot 1) \<noteq> None \<and>
   completes (request 1 12288 16 0) (fscall sample_env SYS_READ (request 1 12288 16 0) sample_boot) \<and>
   0 \<le> sint (Args (request 9 0 0 0) 0) \<and>
   GetInode (sint (Args (request 9 0 0 0) 0)) sample_boot = Return (Inl EBADF) \<and>
   completes (request 9 0 0 0) (fscall sample_env SYS_CLOSE (request 9 0 0 0) sample_boot)"
proof -
  have a: "cstring (mem sample_boot) (Args (request 0 4096 0 0) 1) \<noteq> None"
    by (simp add: request_Args request_Args_Suc sample_boot_table sample_cstring)
  have d: "cstring (mem sample_boot) (Args (request 0 8192 20480 0) 1) \<noteq> None"
    by (simp add: request_Args request_Args_Suc sample_boot_table sample_cstring)
  have b: "0 \<le> sint (Args (request 1 12288 16 0) 0)" "0 \<le> sint (Args (request 9 0 0 0) 0)"
    by (simp_all add: request_Args)
  have g1: "GetInode (sint (Args (request 1 12288 16 0) 0)) sample_boot = Return (Inr 1)"
    by (simp add: request_Args sample_boot_GetInode)
  have f1: "File (heap sample_boot 1) \<noteq> None"
    by (simp add: sample_boot_heap NewFile_def)
  have g9: "GetInode (sint (Args (request 9 0 0 0) 0)) sample_boot = Return (Inl EBADF)"
    by (simp add: request_Args GetInode_def sample_boot_table)
  have c1: "case GetInode (sint (Args (request 1 12288 16 0) 0)) sample_boot of
              Return (Inr ni) \<Rightarrow> File (heap sample_boot ni) \<noteq> None | _ \<Rightarrow> True"
    using f1 by (simp add: g1)
  have c9: "case GetInode (sint (Args (request 9 0 0 0) 0)) sample_boot of
              Return (Inr ni) \<Rightarrow> File (heap sample_boot ni) \<noteq> None | _ \<Rightarrow> True"
    by (simp add: g9)
  have o: "SYS_OPENAT \<noteq> SYS_READ" "SYS_OPENAT \<noteq> SYS_WRITE" "SYS_OPENAT \<noteq> SYS_CLOSE"
    using opcodes_distinct by simp_all
  from completion_fires_once_last [of SYS_OPENAT sample_boot "request 0 4096 0 0"
      "request 0 8192 20480 0" sample_env, OF a _ _ d]
  have 1: "completes (request 0 4096 0 0) (fscall sample_env SYS_OPENAT (request 0 4096 0 0) sample_boot) \<and>
     completes (request 0 8192 20480 0) (sysFstatat64 sample_env (request 0 8192 20480 0) sample_boot)"
    using o by simp
  from completion_fires_once_last [of SYS_READ sample_boot "request 1 12288 16 0"
      "request 0 8192 20480 0" sample_env, OF _ b(1) c1 d]
  have 2: "completes (request 1 12288 16 0) (fscall sample_env SYS_READ (request 1 12288 16 0) sample_boot)"
    using opcodes_distinct by simp
  from completion_fires_once_last [of SYS_CLOSE sample_boot "request 9 0 0 0"
      "request 0 8192 20480 0" sample_env, OF _ b(2) c9 d]
  have 3: "completes (request 9 0 0 0) (fscall sample_env SYS_CLOSE (request 9 0 0 0) sample_boot)"
    using opcodes_distinct by simp
  show ?thesis using a d b g1 f1 g9 1 2 3 by simp
qed

text \<open>
  C9, as the code behaves on the requests left out above. For every opcode but open, a
  request whose handle is negative makes \<^verbatim>\<open>GetInode\<close> panic; a read, write or close of
  an open descriptor that holds no stream panics on the method call. On both paths the
  dispatcher does not reach \<^verbatim>\<open>c.Done()\<close>: the completion signal is fired zero times.
\<close>

theorem completion_not_fired_on_panic:
  "(fn \<noteq> SYS_OPENAT \<and> sint (Args c 0) < 0 \<longrightarrow>
      fscall E fn c s = Panic IndexOutOfRange \<and> \<not> completes c (fscall E fn c s)) \<and>
   ((fn = SYS_READ \<or> fn = SYS_WRITE \<or> fn = SYS_CLOSE) \<and>
    GetInode (sint (Args c 0)) s = Return (Inr ni) \<and> File (heap s ni) = None \<longrightarrow>
      fscall E fn c s = Panic NilDereference \<and> \<not> completes c (fscall E fn c s))"
proof -
  have neg: "fscall E fn c s = Panic IndexOutOfRange"
    if "fn \<noteq> SYS_OPENAT" "sint (Args c 0) < 0"
    using that by (simp add: fscall_def GetInode_def)
  have nil: "fscall E fn c s = Panic NilDereference"
    if fn: "fn = SYS_READ \<or> fn = SYS_WRITE \<or> fn = SYS_CLOSE"
      and ok: "GetInode (sint (Args c 0)) s = Return (Inr ni)"
      and no: "File (heap s ni) = None"
  proof -
    from fn consider "fn = SYS_READ" | "fn = SYS_WRITE" | "fn = SYS_CLOSE" by blast
    then show ?thesis
    proof cases
      case 1
      have "sysRead E ni (Args c 1) (Args c 2) s = Panic NilDereference"
        using no by (simp add: sysRead_def Let_def)
      then show ?thesis
        unfolding 1 fscall_resolved [OF opcodes_distinct(1) ok] fscall_switch_def
        by simp
    next
      case 2
      have "sysWrite E ni (Args c 1) (Args c 2) s = Panic NilDereference"
        using no by (simp add: sysWrite_def Let_def)
      then show ?thesis
        unfolding 2 fscall_resolved [OF opcodes_distinct(2) ok] fscall_switch_def
        by (simp add: opcodes_distinct)
    next
      case 3
      have "sysClose E ni s = Panic NilDereference"
        using no by (simp add: sysClose_def)
      then show ?thesis
        unfolding 3 fscall_resolved [OF opcodes_distinct(3) ok] fscall_switch_def
        by (simp add: opcodes_distinct)
    qed
  qed
  show ?thesis using neg nil by auto
qed

text \<open>
  After boot, the read syscall with handle -1; after a failed open of \<^verbatim>\<open>/missing\<close>,
  the read syscall on handle 4.
\<close>

theorem completion_not_fired_on_panic_witness:
  "SYS_READ \<noteq> SYS_OPENAT \<and> sint (Args (request (- 1) 12288 16 0) 0) < 0 \<and>
   fscall sample_env SYS_READ (request (- 1) 12288 16 0) sample_boot = Panic IndexOutOfRange \<and>
   \<not> completes (request (- 1) 12288 16 0)
       (fscall sample_env SYS_READ (request (- 1) 12288 16 0) sample_boot) \<and>
   GetInode (sint (Args (request 4 12288 16 0) 0)) sample_leaked = Return (Inr 4) \<and>
   File (heap sample_leaked 4) = None \<and>
   fscall sample_env SYS_READ (request 4 12288 16 0) sample_leaked = Panic NilDereference \<and>
   \<not> completes (request 4 12288 16 0)
       (fscall sample_env SYS_READ (request 4 12288 16 0) sample_leaked)"
proof -
  have a: "sint (Args (request (- 1) 12288 16 0) 0) < 0"
    by (simp add: request_Args)
  have b: "GetInode (sint (Args (request 4 12288 16 0) 0)) sample_leaked = Return (Inr 4)"
    by (simp add: request_Args sample_leaked_table)
  have c: "File (heap sample_leaked 4) = None"
    by (simp add: sample_leaked_table)
  show ?thesis
    using a b c opcodes_distinct(1)
      completion_not_fired_on_panic [of SYS_READ "request (- 1) 12288 16 0" sample_env sample_boot]
      completion_not_fired_on_panic [of SYS_READ "request 4 12288 16 0" sample_env sample_leaked 4]
    by simp
qed

section \<open>Random fill\<close>









end
